theory Spec2Isabelle
  imports Main "HOL-Library.Word" "HOL-Library.Sublist" "HOL-Library.AList"
begin

unbundle bit_operations_syntax

chapter \<open>HubCore: the action-dispatch pipeline, identity and consent\<close>

text \<open>
  A shallow embedding of \<^verbatim>\<open>hubcore/config.py\<close>, \<^verbatim>\<open>hubcore/auth.py\<close>,
  \<^verbatim>\<open>hubcore/consent.py\<close>, \<^verbatim>\<open>hubcore/router.py\<close> and \<^verbatim>\<open>hubcore/base_hub.py\<close>.

  Conventions of the embedding.
  \<^item> A Python \<^verbatim>\<open>str\<close> is a \<open>string\<close>, one \<open>char\<close> per code point (code points below 256).
  \<^item> A \<^verbatim>\<open>datetime\<close> is an \<open>int\<close>, the number of microseconds since a fixed origin, and a
    \<^verbatim>\<open>timedelta\<close> is an \<open>int\<close> number of microseconds. The calendar bounds of
    \<^verbatim>\<open>datetime\<close> are not part of the model. \<^verbatim>\<open>isoformat()\<close> of a timestamp is represented
    by the timestamp.
  \<^item> Every reading of the clock (\<^verbatim>\<open>datetime.now()\<close>) and every random token
    (\<^verbatim>\<open>secrets.token_urlsafe\<close>, \<^verbatim>\<open>uuid.uuid4\<close>) is an input of the function that reads it.
  \<^item> A method that mutates \<^verbatim>\<open>self\<close> takes the object and returns it updated.
  \<^item> An exception is the \<open>Inl\<close> of a sum; \<^verbatim>\<open>str(e)\<close> is the text the exception carries.
\<close>

section \<open>Configuration classes (config.py)\<close>

record SkillExposure =
  exposed :: "string list"
  hidden :: "string list"
  internal :: "string list"

definition is_user_callable :: "SkillExposure \<Rightarrow> string \<Rightarrow> bool" where
  "is_user_callable se skill_id = (skill_id \<in> set (exposed se))"

definition is_hub_callable :: "SkillExposure \<Rightarrow> string \<Rightarrow> bool" where
  "is_hub_callable se skill_id = (skill_id \<in> set (exposed se) \<or> skill_id \<in> set (internal se))"

definition all_available :: "SkillExposure \<Rightarrow> string list" where
  "all_available se = exposed se @ internal se"

record HubAction =
  act_id :: string
  act_label :: string
  act_icon :: string
  act_agent :: string
  act_skill :: string
  act_description :: string
  act_precondition :: "string option"
  act_confirm :: bool
  act_confirm_message :: string
  act_primary :: bool
  act_position :: int
  act_group :: "string option"

record AuthConfig =
  auth_method :: string
  email_domain :: "string option"
  session_duration_hours :: int
  oauth_provider :: "string option"
  oauth_client_id :: "string option"

text \<open>Without a configured domain every email is valid; otherwise the email has to end with
  the \<^verbatim>\<open>@\<close> sign followed by the domain (\<^verbatim>\<open>str.endswith\<close>).\<close>

definition validate_email :: "AuthConfig \<Rightarrow> string \<Rightarrow> bool" where
  "validate_email cfg email =
     (case email_domain cfg of
        None \<Rightarrow> True
      | Some d \<Rightarrow> suffix (''@'' @ d) email)"

record ConsentConfig =
  required :: bool
  consent_title :: string
  consent_text :: string
  data_usage :: "string list"
  data_shared_with :: "string list"
  revocable :: bool
  optional_participation :: bool

record AgentConnection =
  conn_name :: string
  conn_url :: string
  skill_exposure :: SkillExposure
  timeout_seconds :: int
  retry_attempts :: int
  healthy :: bool
  last_health_check :: "string option"

text \<open>The constructors with the default values of the dataclasses.\<close>

definition SkillExposure_init :: SkillExposure where
  "SkillExposure_init = \<lparr>exposed = [], hidden = [], internal = []\<rparr>"

definition HubAction_init :: "string \<Rightarrow> string \<Rightarrow> string \<Rightarrow> string \<Rightarrow> string \<Rightarrow> HubAction" where
  "HubAction_init i l ic ag sk =
     \<lparr>act_id = i, act_label = l, act_icon = ic, act_agent = ag, act_skill = sk,
      act_description = [], act_precondition = None, act_confirm = False,
      act_confirm_message = [], act_primary = False, act_position = 0, act_group = None\<rparr>"

definition AuthConfig_init :: AuthConfig where
  "AuthConfig_init =
     \<lparr>auth_method = ''magic_link'', email_domain = None, session_duration_hours = 24,
      oauth_provider = None, oauth_client_id = None\<rparr>"

definition ConsentConfig_init :: ConsentConfig where
  "ConsentConfig_init =
     \<lparr>required = True, consent_title = ''Consent Required'', consent_text = [],
      data_usage = [], data_shared_with = [], revocable = True, optional_participation = True\<rparr>"

definition AgentConnection_init :: "string \<Rightarrow> string \<Rightarrow> SkillExposure \<Rightarrow> AgentConnection" where
  "AgentConnection_init n u e =
     \<lparr>conn_name = n, conn_url = u, skill_exposure = e, timeout_seconds = 30,
      retry_attempts = 3, healthy = False, last_health_check = None\<rparr>"

section \<open>SHA-256 (hashlib.sha256) and its hexadecimal digest\<close>

text \<open>The 64 round constants and the initial hash value, as decimal numerals.\<close>

type_synonym w32 = "32 word"
type_synonym hash256 = "w32 \<times> w32 \<times> w32 \<times> w32 \<times> w32 \<times> w32 \<times> w32 \<times> w32"

definition K256 :: "w32 list" where
  "K256 =
    [1116352408, 1899447441, 3049323471, 3921009573, 961987163, 1508970993, 2453635748, 2870763221,
     3624381080, 310598401, 607225278, 1426881987, 1925078388, 2162078206, 2614888103, 3248222580,
     3835390401, 4022224774, 264347078, 604807628, 770255983, 1249150122, 1555081692, 1996064986,
     2554220882, 2821834349, 2952996808, 3210313671, 3336571891, 3584528711, 113926993, 338241895,
     666307205, 773529912, 1294757372, 1396182291, 1695183700, 1986661051, 2177026350, 2456956037,
     2730485921, 2820302411, 3259730800, 3345764771, 3516065817, 3600352804, 4094571909, 275423344,
     430227734, 506948616, 659060556, 883997877, 958139571, 1322822218, 1537002063, 1747873779,
     1955562222, 2024104815, 2227730452, 2361852424, 2428436474, 2756734187, 3204031479, 3329325298]"

definition H256 :: hash256 where
  "H256 = (1779033703, 3144134277, 1013904242, 2773480762,
           1359893119, 2600822924, 528734635, 1541459225)"

definition Ch :: "w32 \<Rightarrow> w32 \<Rightarrow> w32 \<Rightarrow> w32" where
  "Ch x y z = (x AND y) XOR (NOT x AND z)"

definition Maj :: "w32 \<Rightarrow> w32 \<Rightarrow> w32 \<Rightarrow> w32" where
  "Maj x y z = (x AND y) XOR (x AND z) XOR (y AND z)"

definition bsig0 :: "w32 \<Rightarrow> w32" where
  "bsig0 x = word_rotr 2 x XOR word_rotr 13 x XOR word_rotr 22 x"

definition bsig1 :: "w32 \<Rightarrow> w32" where
  "bsig1 x = word_rotr 6 x XOR word_rotr 11 x XOR word_rotr 25 x"

definition ssig0 :: "w32 \<Rightarrow> w32" where
  "ssig0 x = word_rotr 7 x XOR word_rotr 18 x XOR drop_bit 3 x"

definition ssig1 :: "w32 \<Rightarrow> w32" where
  "ssig1 x = word_rotr 17 x XOR word_rotr 19 x XOR drop_bit 10 x"

text \<open>The message is padded to a multiple of 64 bytes: \<open>0x80\<close>, zeros, the bit length on 8 bytes.\<close>

definition sha256_pad :: "int list \<Rightarrow> int list" where
  "sha256_pad bs =
     bs @ [128] @ replicate ((119 - length bs mod 64) mod 64) 0
        @ map (\<lambda>i. (8 * int (length bs)) div 256 ^ (7 - i) mod 256) [0..<8]"

definition be_word :: "int list \<Rightarrow> w32" where
  "be_word bs = of_int (foldl (\<lambda>acc b. acc * 256 + b) 0 bs)"

definition block_words :: "int list \<Rightarrow> w32 list" where
  "block_words block = map (\<lambda>i. be_word (take 4 (drop (4 * i) block))) [0..<16]"

primrec schedule :: "nat \<Rightarrow> w32 list \<Rightarrow> w32 list" where
  "schedule 0 w = w"
| "schedule (Suc n) w =
     schedule n
       (w @ [ssig1 (w ! (length w - 2)) + w ! (length w - 7)
             + ssig0 (w ! (length w - 15)) + w ! (length w - 16)])"

definition sha256_round :: "hash256 \<Rightarrow> w32 \<times> w32 \<Rightarrow> hash256" where
  "sha256_round s kw =
     (case s of (a, b, c, d, e, f, g, h) \<Rightarrow>
        let t1 = h + bsig1 e + Ch e f g + fst kw + snd kw;
            t2 = bsig0 a + Maj a b c
        in (t1 + t2, a, b, c, d + t1, e, f, g))"

definition hash_add :: "hash256 \<Rightarrow> hash256 \<Rightarrow> hash256" where
  "hash_add s t =
     (case s of (a, b, c, d, e, f, g, h) \<Rightarrow>
      case t of (a', b', c', d', e', f', g', h') \<Rightarrow>
        (a + a', b + b', c + c', d + d', e + e', f + f', g + g', h + h'))"

definition sha256_compress :: "hash256 \<Rightarrow> int list \<Rightarrow> hash256" where
  "sha256_compress s block =
     hash_add s (foldl sha256_round s (zip K256 (schedule 48 (block_words block))))"

primrec sha256_blocks :: "nat \<Rightarrow> int list \<Rightarrow> hash256 \<Rightarrow> hash256" where
  "sha256_blocks 0 bs s = s"
| "sha256_blocks (Suc n) bs s = sha256_blocks n (drop 64 bs) (sha256_compress s (take 64 bs))"

definition sha256 :: "int list \<Rightarrow> hash256" where
  "sha256 bs = (let p = sha256_pad bs in sha256_blocks (length p div 64) p H256)"

definition hex_digit :: "w32 \<Rightarrow> char" where
  "hex_digit n = ''0123456789abcdef'' ! unat (n AND 15)"

definition hex8 :: "w32 \<Rightarrow> string" where
  "hex8 w = map (\<lambda>i. hex_digit (drop_bit (4 * (7 - i)) w)) [0..<8]"

definition hexdigest :: "hash256 \<Rightarrow> string" where
  "hexdigest s =
     (case s of (a, b, c, d, e, f, g, h) \<Rightarrow>
        hex8 a @ hex8 b @ hex8 c @ hex8 d @ hex8 e @ hex8 f @ hex8 g @ hex8 h)"

text \<open>\<^verbatim>\<open>str.encode()\<close>: UTF-8, one byte below 128 and two bytes from 128 to 255.\<close>

definition encode :: "string \<Rightarrow> int list" where
  "encode s =
     concat (map (\<lambda>c. let n = (of_char c :: int)
                       in if n < 128 then [n] else [192 + n div 64, 128 + n mod 64]) s)"

section \<open>Authentication manager (auth.py)\<close>

record pending_link =
  pl_email :: string
  pl_expires :: int

record session =
  s_user_id :: string
  s_email :: string
  s_expires :: int
  s_created :: int

record AuthManager =
  auth_config :: AuthConfig
  pending_links :: "string \<rightharpoonup> pending_link"
  sessions :: "string \<rightharpoonup> session"

definition AuthManager_init :: "AuthConfig \<Rightarrow> AuthManager" where
  "AuthManager_init cfg = \<lparr>auth_config = cfg, pending_links = Map.empty, sessions = Map.empty\<rparr>"

definition minutes :: "int \<Rightarrow> int" where
  "minutes m = m * 60000000"

definition hours :: "int \<Rightarrow> int" where
  "hours h = h * 3600000000"

text \<open>
  The returned dictionaries: \<^verbatim>\<open>{"success": False, "error": e}\<close> is \<open>LinkFailure e\<close>,
  \<^verbatim>\<open>{"success": True, "message": m, "dev_token": t}\<close> is \<open>LinkSent m t\<close>.
\<close>

datatype link_result = LinkFailure string | LinkSent string string

text \<open>\<open>token\<close> is what \<^verbatim>\<open>secrets.token_urlsafe(32)\<close> returns, \<open>now\<close> what \<^verbatim>\<open>datetime.now()\<close> returns.\<close>

definition send_magic_link ::
  "AuthManager \<Rightarrow> string \<Rightarrow> string \<Rightarrow> int \<Rightarrow> link_result \<times> AuthManager" where
  "send_magic_link am email token now =
     (if \<not> validate_email (auth_config am) email then
        (LinkFailure (''Email must be from ''
           @ (case email_domain (auth_config am) of None \<Rightarrow> ''None'' | Some d \<Rightarrow> d)), am)
      else
        let expires = now + minutes 15
        in (LinkSent (''Magic link sent to '' @ email) token,
            am\<lparr>pending_links := (pending_links am)
                  (token \<mapsto> \<lparr>pl_email = email, pl_expires = expires\<rparr>)\<rparr>))"

text \<open>
  \<^verbatim>\<open>_email_to_user_id\<close>: the part before the first \<^verbatim>\<open>@\<close> of an address ending in
  \<^verbatim>\<open>@virginia.edu\<close>, the first 12 hexadecimal digits of the SHA-256 of any other address.
\<close>

definition email_to_user_id :: "string \<Rightarrow> string" where
  "email_to_user_id email =
     (if suffix ''@virginia.edu'' email then takeWhile (\<lambda>c. c \<noteq> CHR ''@'') email
      else take 12 (hexdigest (sha256 (encode email))))"

text \<open>
  \<^verbatim>\<open>{"success": False, "error": e}\<close> is \<open>VerifyFailure e\<close>; the successful dictionary is
  \<open>VerifySuccess session_token user_id email expires\<close>.
\<close>

datatype verify_result = VerifyFailure string | VerifySuccess string string string int

text \<open>
  \<open>session_token\<close> is the fresh \<^verbatim>\<open>secrets.token_urlsafe(32)\<close>; \<open>now1\<close>, \<open>now2\<close> and \<open>now3\<close> are
  the three readings of the clock, in the order of the source: the expiry test, the
  session's expiry, the session's creation time.
\<close>

definition verify_magic_link ::
  "AuthManager \<Rightarrow> string \<Rightarrow> string \<Rightarrow> int \<Rightarrow> int \<Rightarrow> int \<Rightarrow> verify_result \<times> AuthManager" where
  "verify_magic_link am token session_token now1 now2 now3 =
     (case pending_links am token of
        None \<Rightarrow> (VerifyFailure ''Invalid or expired link'', am)
      | Some pending \<Rightarrow>
          if now1 > pl_expires pending then
            (VerifyFailure ''Link has expired'',
             am\<lparr>pending_links := (pending_links am)(token := None)\<rparr>)
          else
            let email = pl_email pending;
                user_id = email_to_user_id email;
                session_expires = now2 + hours (session_duration_hours (auth_config am))
            in (VerifySuccess session_token user_id email session_expires,
                am\<lparr>sessions := (sessions am)
                      (session_token \<mapsto> \<lparr>s_user_id = user_id, s_email = email,
                                          s_expires = session_expires, s_created = now3\<rparr>),
                   pending_links := (pending_links am)(token := None)\<rparr>))"

record user_info =
  ui_user_id :: string
  ui_email :: string
  ui_expires :: int

definition validate_session ::
  "AuthManager \<Rightarrow> string \<Rightarrow> int \<Rightarrow> user_info option \<times> AuthManager" where
  "validate_session am session_token now =
     (case sessions am session_token of
        None \<Rightarrow> (None, am)
      | Some s \<Rightarrow>
          if now > s_expires s then
            (None, am\<lparr>sessions := (sessions am)(session_token := None)\<rparr>)
          else
            (Some \<lparr>ui_user_id = s_user_id s, ui_email = s_email s, ui_expires = s_expires s\<rparr>,
             am))"

definition invalidate_session :: "AuthManager \<Rightarrow> string \<Rightarrow> bool \<times> AuthManager" where
  "invalidate_session am session_token =
     (if session_token \<in> dom (sessions am) then
        (True, am\<lparr>sessions := (sessions am)(session_token := None)\<rparr>)
      else (False, am))"

section \<open>Consent manager (consent.py)\<close>

record consent_record =
  cr_user_id :: string
  cr_timestamp :: int
  cr_revoked :: bool
  cr_revoked_at :: "int option"
  cr_consent_version :: string

record ConsentManager =
  consent_config :: ConsentConfig
  consents :: "string \<rightharpoonup> consent_record"

definition ConsentManager_init :: "ConsentConfig \<Rightarrow> ConsentManager" where
  "ConsentManager_init cfg = \<lparr>consent_config = cfg, consents = Map.empty\<rparr>"

definition has_consented :: "ConsentManager \<Rightarrow> string \<Rightarrow> bool" where
  "has_consented cm user_id =
     (if \<not> required (consent_config cm) then True
      else case consents cm user_id of
             None \<Rightarrow> False
           | Some consent \<Rightarrow> if cr_revoked consent then False else True)"

text \<open>
  \<^verbatim>\<open>{"success": False, "error": e}\<close> is \<open>ConsentFailure e\<close>; a successful dictionary is
  \<open>ConsentSuccess user_id message\<close> (the timestamp of \<^verbatim>\<open>record_consent\<close> is in the stored record).
\<close>

datatype consent_result = ConsentFailure string | ConsentSuccess string string

definition record_consent ::
  "ConsentManager \<Rightarrow> string \<Rightarrow> int \<Rightarrow> consent_result \<times> ConsentManager" where
  "record_consent cm user_id now =
     (ConsentSuccess user_id ''Consent recorded successfully'',
      cm\<lparr>consents := (consents cm)
            (user_id \<mapsto> \<lparr>cr_user_id = user_id, cr_timestamp = now, cr_revoked = False,
                         cr_revoked_at = None, cr_consent_version = ''1.0''\<rparr>)\<rparr>)"

definition revoke_consent ::
  "ConsentManager \<Rightarrow> string \<Rightarrow> int \<Rightarrow> consent_result \<times> ConsentManager" where
  "revoke_consent cm user_id now =
     (if \<not> revocable (consent_config cm) then
        (ConsentFailure ''Consent cannot be revoked for this hub'', cm)
      else case consents cm user_id of
             None \<Rightarrow> (ConsentFailure ''No consent record found'', cm)
           | Some consent \<Rightarrow>
               (ConsentSuccess user_id ''Consent has been revoked'',
                cm\<lparr>consents := (consents cm)
                      (user_id \<mapsto> consent\<lparr>cr_revoked := True, cr_revoked_at := Some now\<rparr>)\<rparr>))"

section \<open>Python values and their dynamically typed operations\<close>

text \<open>
  What \<^verbatim>\<open>response.json()\<close> decodes and what the parameter and result dictionaries hold. A
  \<^verbatim>\<open>dict\<close> is an association list in insertion order, read with \<open>map_of\<close>; numbers are
  integers.
\<close>

datatype json =
    JNull
  | JBool bool
  | JInt int
  | JStr string
  | JList "json list"
  | JObj "(string \<times> json) list"

type_synonym dict = "(string \<times> json) list"

datatype exn =
    RuntimeError string
  | ValueError string
  | PermissionError string
  | Exception string
  | HTTPError string
  | JSONDecodeError string
  | TypeError string
  | AttributeError string
  | KeyError string
  | IndexError string

text \<open>\<^verbatim>\<open>str(e)\<close>\<close>

fun exn_str :: "exn \<Rightarrow> string" where
  "exn_str (RuntimeError m) = m"
| "exn_str (ValueError m) = m"
| "exn_str (PermissionError m) = m"
| "exn_str (Exception m) = m"
| "exn_str (HTTPError m) = m"
| "exn_str (JSONDecodeError m) = m"
| "exn_str (TypeError m) = m"
| "exn_str (AttributeError m) = m"
| "exn_str (KeyError m) = m"
| "exn_str (IndexError m) = m"

fun type_name :: "json \<Rightarrow> string" where
  "type_name JNull = ''NoneType''"
| "type_name (JBool b) = ''bool''"
| "type_name (JInt i) = ''int''"
| "type_name (JStr s) = ''str''"
| "type_name (JList xs) = ''list''"
| "type_name (JObj d) = ''dict''"

definition quoted :: "string \<Rightarrow> string" where
  "quoted s = CHR 0x27 # s @ [CHR 0x27]"

text \<open>Truth value of an object in a condition.\<close>

fun py_truthy :: "json \<Rightarrow> bool" where
  "py_truthy JNull = False"
| "py_truthy (JBool b) = b"
| "py_truthy (JInt i) = (i \<noteq> 0)"
| "py_truthy (JStr s) = (s \<noteq> [])"
| "py_truthy (JList xs) = (xs \<noteq> [])"
| "py_truthy (JObj d) = (d \<noteq> [])"

text \<open>\<^verbatim>\<open>key in x\<close>: a key of a dict, a substring of a str, an element of a list.\<close>

fun py_contains :: "string \<Rightarrow> json \<Rightarrow> exn + bool" where
  "py_contains key (JObj d) = Inr (key \<in> set (map fst d))"
| "py_contains key (JStr s) = Inr (sublist key s)"
| "py_contains key (JList xs) = Inr (JStr key \<in> set xs)"
| "py_contains key x =
     Inl (TypeError (''argument of type '' @ quoted (type_name x) @ '' is not iterable''))"

text \<open>\<^verbatim>\<open>x[key]\<close> with a string key.\<close>

fun py_getitem :: "json \<Rightarrow> string \<Rightarrow> exn + json" where
  "py_getitem (JObj d) key =
     (case map_of d key of Some v \<Rightarrow> Inr v | None \<Rightarrow> Inl (KeyError (quoted key)))"
| "py_getitem (JStr s) key =
     Inl (TypeError (''string indices must be integers, not '' @ quoted ''str''))"
| "py_getitem (JList xs) key =
     Inl (TypeError ''list indices must be integers or slices, not str'')"
| "py_getitem x key = Inl (TypeError (quoted (type_name x) @ '' object is not subscriptable''))"

text \<open>\<^verbatim>\<open>x.get(key, dflt)\<close>: only a dict has the method.\<close>

fun py_get :: "json \<Rightarrow> string \<Rightarrow> json \<Rightarrow> exn + json" where
  "py_get (JObj d) key dflt =
     Inr (case map_of d key of Some v \<Rightarrow> v | None \<Rightarrow> dflt)"
| "py_get x key dflt =
     Inl (AttributeError (quoted (type_name x) @ '' object has no attribute '' @ quoted ''get''))"

text \<open>\<^verbatim>\<open>len(x)\<close>\<close>

fun py_len :: "json \<Rightarrow> exn + nat" where
  "py_len (JStr s) = Inr (length s)"
| "py_len (JList xs) = Inr (length xs)"
| "py_len (JObj d) = Inr (length d)"
| "py_len x = Inl (TypeError (''object of type '' @ quoted (type_name x) @ '' has no len()''))"

text \<open>\<^verbatim>\<open>x[0]\<close>; no key of a decoded dict is the integer 0.\<close>

fun py_first :: "json \<Rightarrow> exn + json" where
  "py_first (JList []) = Inl (IndexError ''list index out of range'')"
| "py_first (JList (y # ys)) = Inr y"
| "py_first (JStr []) = Inl (IndexError ''string index out of range'')"
| "py_first (JStr (c # cs)) = Inr (JStr [c])"
| "py_first (JObj d) = Inl (KeyError ''0'')"
| "py_first x = Inl (TypeError (quoted (type_name x) @ '' object is not subscriptable''))"

text \<open>The elements a \<^verbatim>\<open>for\<close> loop visits: of a list, the characters of a str, the keys of a dict.\<close>

fun py_iter :: "json \<Rightarrow> exn + json list" where
  "py_iter (JList xs) = Inr xs"
| "py_iter (JStr s) = Inr (map (\<lambda>c. JStr [c]) s)"
| "py_iter (JObj d) = Inr (map (\<lambda>kv. JStr (fst kv)) d)"
| "py_iter x = Inl (TypeError (quoted (type_name x) @ '' object is not iterable''))"

definition bind_exn :: "exn + 'a \<Rightarrow> ('a \<Rightarrow> exn + 'b) \<Rightarrow> exn + 'b" where
  "bind_exn m f = (case m of Inl e \<Rightarrow> Inl e | Inr x \<Rightarrow> f x)"

text \<open>
  \<^verbatim>\<open>{**d, **params}\<close>: the items of \<open>params\<close> are stored into \<open>d\<close> one after the other; a key
  already present keeps its position and takes the new value.
\<close>

definition dict_update :: "dict \<Rightarrow> dict \<Rightarrow> dict" where
  "dict_update d params = foldl (\<lambda>acc kv. AList.update (fst kv) (snd kv) acc) d params"

section \<open>The environment of the pipeline\<close>

text \<open>
  What the pipeline cannot compute: the identifiers \<^verbatim>\<open>uuid.uuid4()\<close> draws, what the HTTP
  client answers (\<open>Inl\<close> the exception \<^verbatim>\<open>client.post\<close>, \<^verbatim>\<open>raise_for_status\<close> or
  \<^verbatim>\<open>response.json()\<close> raises, \<open>Inr\<close> the decoded body), the text \<^verbatim>\<open>str\<close> gives a decoded value
  inside an f-string, and the two hooks a subclass overrides. A hook raises or returns;
  since it receives its dictionary by reference, what it returns here is that dictionary
  as the hook leaves it.
\<close>

record env =
  uuid4 :: "nat \<Rightarrow> string"
  post :: "nat \<Rightarrow> string \<Rightarrow> json \<Rightarrow> exn + json"
  py_str :: "json \<Rightarrow> string"
  on_action_start :: "string \<Rightarrow> string \<Rightarrow> dict \<Rightarrow> exn + dict"
  on_action_complete :: "string \<Rightarrow> string \<Rightarrow> json \<Rightarrow> exn + json"

text \<open>The trace records, in order, every effect of the pipeline.\<close>

datatype event =
    Uuid4 string
  | Post string json
  | ActionStartHook string string dict
  | ActionCompleteHook string string json

type_synonym trace = "event list"

fun is_uuid4 :: "event \<Rightarrow> bool" where
  "is_uuid4 (Uuid4 u) = True"
| "is_uuid4 ev = False"

fun is_post :: "event \<Rightarrow> bool" where
  "is_post (Post u m) = True"
| "is_post ev = False"

fun is_hook :: "event \<Rightarrow> bool" where
  "is_hook (ActionStartHook a u p) = True"
| "is_hook (ActionCompleteHook a u r) = True"
| "is_hook ev = False"

definition uuids_drawn :: "trace \<Rightarrow> nat" where
  "uuids_drawn t = length (filter is_uuid4 t)"

definition posts_made :: "trace \<Rightarrow> nat" where
  "posts_made t = length (filter is_post t)"

section \<open>Router (router.py)\<close>

definition build_a2a_message ::
  "env \<Rightarrow> trace \<Rightarrow> string \<Rightarrow> string \<Rightarrow> dict \<Rightarrow> json \<times> trace" where
  "build_a2a_message ev t skill_id user_id params =
     (let message_id = uuid4 ev (uuids_drawn t)
      in (JObj
           [(''jsonrpc'', JStr ''2.0''),
            (''id'', JStr message_id),
            (''method'', JStr ''message/send''),
            (''params'', JObj
               [(''message'', JObj
                  [(''role'', JStr ''user''),
                   (''parts'', JList
                      [JObj
                         [(''kind'', JStr ''data''),
                          (''data'', JObj
                             [(''skill'', JStr skill_id),
                              (''parameters'',
                                 JObj (dict_update [(''user_id'', JStr user_id)] params))])]]),
                   (''messageId'', JStr message_id),
                   (''kind'', JStr ''message'')])])],
          t @ [Uuid4 message_id]))"

text \<open>The loop of \<^verbatim>\<open>_extract_result\<close> over the parts: \<open>Some\<close> is its \<^verbatim>\<open>return\<close>.\<close>

fun first_data_part :: "json list \<Rightarrow> exn + json option" where
  "first_data_part [] = Inr None"
| "first_data_part (part # rest) =
     (case py_get part ''kind'' JNull of
        Inl e \<Rightarrow> Inl e
      | Inr kind \<Rightarrow>
          if kind = JStr ''data'' then
            (case py_get part ''data'' (JObj []) of
               Inl e \<Rightarrow> Inl e
             | Inr d \<Rightarrow> Inr (Some d))
          else first_data_part rest)"

definition extract_result :: "json \<Rightarrow> exn + json" where
  "extract_result result =
     bind_exn (py_contains ''artifacts'' result) (\<lambda>has_artifacts.
       if has_artifacts then
         bind_exn (py_getitem result ''artifacts'') (\<lambda>artifacts.
           if py_truthy artifacts then
             bind_exn (py_len artifacts) (\<lambda>n.
               if n > 0 then
                 bind_exn (py_first artifacts) (\<lambda>artifact.
                 bind_exn (py_get artifact ''parts'' (JList [])) (\<lambda>parts.
                 bind_exn (py_iter parts) (\<lambda>ps.
                 bind_exn (first_data_part ps) (\<lambda>found.
                   case found of Some d \<Rightarrow> Inr d | None \<Rightarrow> Inr result))))
               else Inr result)
           else Inr result)
       else Inr result)"

text \<open>What \<^verbatim>\<open>_send_to_agent\<close> does with the decoded body \<open>data\<close>.\<close>

definition unwrap_response :: "env \<Rightarrow> json \<Rightarrow> exn + json" where
  "unwrap_response ev data =
     bind_exn (py_contains ''result'' data) (\<lambda>has_result.
       if has_result then bind_exn (py_getitem data ''result'') extract_result
       else
         bind_exn (py_contains ''error'' data) (\<lambda>has_error.
           if has_error then
             bind_exn (py_getitem data ''error'') (\<lambda>err.
               Inl (Exception (''Agent error: '' @ py_str ev err)))
           else Inr data))"

text \<open>The two \<^verbatim>\<open>except\<close> clauses of \<^verbatim>\<open>_send_to_agent\<close> log and raise again.\<close>

definition send_to_agent :: "env \<Rightarrow> trace \<Rightarrow> string \<Rightarrow> json \<Rightarrow> (exn + json) \<times> trace" where
  "send_to_agent ev t agent_url message =
     (case post ev (posts_made t) agent_url message of
        Inl e \<Rightarrow> (Inl e, t @ [Post agent_url message])
      | Inr data \<Rightarrow> (unwrap_response ev data, t @ [Post agent_url message]))"

definition route_action ::
  "(string \<rightharpoonup> AgentConnection) \<Rightarrow> env \<Rightarrow> trace \<Rightarrow> HubAction \<Rightarrow> string \<Rightarrow> dict
     \<Rightarrow> (exn + json) \<times> trace" where
  "route_action agents ev t action user_id params =
     (case agents (act_agent action) of
        None \<Rightarrow> (Inl (ValueError (''Agent not found: '' @ act_agent action)), t)
      | Some agent \<Rightarrow>
          if \<not> is_hub_callable (skill_exposure agent) (act_skill action) then
            (Inl (PermissionError (''Skill '' @ act_skill action
                    @ '' is not available for agent '' @ act_agent action)), t)
          else
            case build_a2a_message ev t (act_skill action) user_id params of
              (message, t1) \<Rightarrow> send_to_agent ev t1 (conn_url agent) message)"

text \<open>
  The head of \<^verbatim>\<open>check_precondition\<close>: \<^verbatim>\<open>precondition_skill.split(".", 1)\<close> when there is a
  dot, the agent \<^verbatim>\<open>le_veilleur\<close> otherwise.
\<close>

definition precondition_target :: "string \<Rightarrow> string \<times> string" where
  "precondition_target precondition_skill =
     (if CHR ''.'' \<in> set precondition_skill then
        (takeWhile (\<lambda>c. c \<noteq> CHR ''.'') precondition_skill,
         tl (dropWhile (\<lambda>c. c \<noteq> CHR ''.'') precondition_skill))
      else (''le_veilleur'', precondition_skill))"

text \<open>The body of the \<^verbatim>\<open>try\<close> of \<^verbatim>\<open>check_precondition\<close>, after the agent has answered.\<close>

definition interpret_precondition :: "json \<Rightarrow> exn + json" where
  "interpret_precondition result =
     bind_exn (py_contains ''has_pending'' result) (\<lambda>has.
       if has then
         bind_exn (py_get result ''has_pending'' (JBool False)) (\<lambda>satisfied.
         bind_exn (py_get result ''message'' (JStr ''No pending worksheet found'')) (\<lambda>message.
         bind_exn (py_get result ''has_pending'' JNull) (\<lambda>pending.
           Inr (JObj
             [(''satisfied'', satisfied),
              (''message'', message),
              (''action_required'',
                 if \<not> py_truthy pending then JStr ''generate_worksheet'' else JNull)]))))
       else Inr result)"

definition check_precondition ::
  "(string \<rightharpoonup> AgentConnection) \<Rightarrow> env \<Rightarrow> trace \<Rightarrow> string \<Rightarrow> string \<Rightarrow> dict
     \<Rightarrow> (exn + json) \<times> trace" where
  "check_precondition agents ev t precondition_skill user_id params =
     (case precondition_target precondition_skill of
        (agent_name, skill_name) \<Rightarrow>
          (case agents agent_name of
             None \<Rightarrow> (Inr (JObj [(''satisfied'', JBool True)]), t)
           | Some agent \<Rightarrow>
               let check_params = dict_update [(''student_id'', JStr user_id)] params
               in case build_a2a_message ev t skill_name user_id check_params of
                    (message, t1) \<Rightarrow>
                      (case send_to_agent ev t1 (conn_url agent) message of
                         (sent, t2) \<Rightarrow>
                           (case bind_exn sent interpret_precondition of
                              Inl e \<Rightarrow>
                                (Inr (JObj [(''satisfied'', JBool False),
                                            (''message'', JStr (exn_str e))]), t2)
                            | Inr r \<Rightarrow> (Inr r, t2)))))"

section \<open>The hub (base_hub.py)\<close>

record BaseHub =
  initialized :: bool
  agents :: "string \<rightharpoonup> AgentConnection"
  actions :: "HubAction list"

text \<open>
  \<^verbatim>\<open>initialize\<close>, from what \<^verbatim>\<open>register_agents\<close>, \<^verbatim>\<open>define_skill_exposure\<close> and
  \<^verbatim>\<open>define_ui_actions\<close> return.
\<close>

definition initialize ::
  "(string \<times> string) list \<Rightarrow> (string \<rightharpoonup> SkillExposure) \<Rightarrow> HubAction list \<Rightarrow> BaseHub" where
  "initialize agent_urls skill_exposures ui_actions =
     \<lparr>initialized = True,
      agents = foldl (\<lambda>m nu. m(fst nu \<mapsto> AgentConnection_init (fst nu) (snd nu)
                        (case skill_exposures (fst nu) of
                           Some e \<Rightarrow> e | None \<Rightarrow> SkillExposure_init)))
                 Map.empty agent_urls,
      actions = ui_actions\<rparr>"

definition get_action :: "BaseHub \<Rightarrow> string \<Rightarrow> HubAction option" where
  "get_action hub action_id = find (\<lambda>action. act_id action = action_id) (actions hub)"

text \<open>
  The precondition step of \<^verbatim>\<open>handle_action\<close>: \<open>Some d\<close> is the early
  \<^verbatim>\<open>return\<close> of the dictionary \<open>d\<close>, \<open>None\<close> lets the action through.
\<close>

definition precondition_step ::
  "BaseHub \<Rightarrow> env \<Rightarrow> trace \<Rightarrow> HubAction \<Rightarrow> string \<Rightarrow> dict \<Rightarrow> (exn + json option) \<times> trace" where
  "precondition_step hub ev t action user_id params =
     (case act_precondition action of
        None \<Rightarrow> (Inr None, t)
      | Some precondition \<Rightarrow>
          if precondition = [] then (Inr None, t)
          else
            case check_precondition (agents hub) ev t precondition user_id params of
              (Inl e, t1) \<Rightarrow> (Inl e, t1)
            | (Inr precondition_result, t1) \<Rightarrow>
                (bind_exn (py_get precondition_result ''satisfied'' (JBool False)) (\<lambda>satisfied.
                   if \<not> py_truthy satisfied then
                     bind_exn (py_get precondition_result ''message''
                                 (JStr ''Precondition not met'')) (\<lambda>message.
                     bind_exn (py_get precondition_result ''action_required'' JNull)
                       (\<lambda>action_required.
                          Inr (Some (JObj
                            [(''status'', JStr ''precondition_failed''),
                             (''message'', message),
                             (''action_required'', action_required)]))))
                   else Inr None), t1))"

definition handle_action ::
  "BaseHub \<Rightarrow> env \<Rightarrow> trace \<Rightarrow> string \<Rightarrow> string \<Rightarrow> dict \<Rightarrow> (exn + json) \<times> trace" where
  "handle_action hub ev t action_id user_id params =
     (if \<not> initialized hub then (Inl (RuntimeError ''Hub not initialized''), t)
      else
        case get_action hub action_id of
          None \<Rightarrow> (Inl (ValueError (''Unknown action: '' @ action_id)), t)
        | Some action \<Rightarrow>
            (case agents hub (act_agent action) of
               None \<Rightarrow> (Inl (ValueError (''Unknown agent: '' @ act_agent action)), t)
             | Some agent \<Rightarrow>
                 if \<not> is_user_callable (skill_exposure agent) (act_skill action) then
                   (Inl (PermissionError (''Skill '' @ act_skill action
                           @ '' is not available in this hub'')), t)
                 else
                   case on_action_start ev action_id user_id params of
                     Inl e \<Rightarrow> (Inl e, t @ [ActionStartHook action_id user_id params])
                   | Inr params1 \<Rightarrow>
                       (case precondition_step hub ev
                               (t @ [ActionStartHook action_id user_id params])
                               action user_id params1 of
                          (Inl e, t2) \<Rightarrow> (Inl e, t2)
                        | (Inr (Some failed), t2) \<Rightarrow> (Inr failed, t2)
                        | (Inr None, t2) \<Rightarrow>
                            (case route_action (agents hub) ev t2 action user_id params1 of
                               (Inl e, t3) \<Rightarrow> (Inl e, t3)
                             | (Inr result, t3) \<Rightarrow>
                                 (case on_action_complete ev action_id user_id result of
                                    Inl e \<Rightarrow>
                                      (Inl e, t3 @ [ActionCompleteHook action_id user_id result])
                                  | Inr result1 \<Rightarrow>
                                      (Inr result1,
                                       t3 @ [ActionCompleteHook action_id user_id result]))))))"

section \<open>A hub and an environment to run the pipeline on\<close>

text \<open>
  The hub of \<^verbatim>\<open>tests/test_base_hub.py\<close> (icons left empty), with a third action on the
  hidden skill of \<^verbatim>\<open>agent_a\<close> and a fourth one guarded by a precondition.
\<close>

definition example_hub :: BaseHub where
  "example_hub =
     initialize
       [(''agent_a'', ''http://localhost:8001''), (''agent_b'', ''http://localhost:8002'')]
       [''agent_a'' \<mapsto> \<lparr>exposed = [''skill_1'', ''skill_2''], hidden = [''skill_3''],
                        internal = [''skill_4'']\<rparr>,
        ''agent_b'' \<mapsto> \<lparr>exposed = [''skill_x''], hidden = [''skill_y''], internal = []\<rparr>]
       [HubAction_init ''action_1'' ''Action One'' [] ''agent_a'' ''skill_1'',
        HubAction_init ''action_2'' ''Action Two'' [] ''agent_b'' ''skill_x'',
        HubAction_init ''action_3'' ''Action Three'' [] ''agent_a'' ''skill_3'',
        (HubAction_init ''action_4'' ''Action Four'' [] ''agent_a'' ''skill_2'')
          \<lparr>act_precondition := Some ''agent_b.check_pending''\<rparr>]"

text \<open>
  An environment whose agents answer every call with \<^verbatim>\<open>{"result": {"status": "ok"}}\<close> and
  whose hooks are those of \<^verbatim>\<open>BaseHub\<close> (\<^verbatim>\<open>pass\<close>). Its \<open>py_str\<close> is \<^verbatim>\<open>str\<close> on strings,
  \<^verbatim>\<open>None\<close> and booleans; it stands for the interpreter's text on numbers and containers,
  where it only names the type.
\<close>

fun example_py_str :: "json \<Rightarrow> string" where
  "example_py_str (JStr s) = s"
| "example_py_str JNull = ''None''"
| "example_py_str (JBool b) = (if b then ''True'' else ''False'')"
| "example_py_str j = ''<'' @ type_name j @ ''>''"

definition example_env :: env where
  "example_env =
     \<lparr>uuid4 = (\<lambda>n. ''uuid-'' @ replicate n CHR ''i''),
      post = (\<lambda>n url message. Inr (JObj [(''result'', JObj [(''status'', JStr ''ok'')])])),
      py_str = example_py_str,
      on_action_start = (\<lambda>action_id user_id params. Inr params),
      on_action_complete = (\<lambda>action_id user_id result. Inr result)\<rparr>"

chapter \<open>Properties\<close>

section \<open>Identity: magic links, sessions, user ids\<close>

lemma hex8_length: "length (hex8 w) = 8"
  by (simp add: hex8_def)

lemma hexdigest_length: "length (hexdigest s) = 64"
  by (simp add: hexdigest_def hex8_length split: prod.splits)

lemma bob_user_id: "email_to_user_id ''bob@virginia.edu'' = ''bob''"
  by (simp add: email_to_user_id_def suffix_to_prefix)

text \<open>
  Claim C5. A pending link that is verified before its expiry succeeds: the user id is
  derived from the stored email, the session is stored under the fresh session token, the
  consumed link is deleted and nothing else changes; verifying the same token again then
  fails with \<^verbatim>\<open>Invalid or expired link\<close>. A pending link verified past its expiry fails with
  \<^verbatim>\<open>Link has expired\<close> and its record is deleted.
\<close>

theorem verify_magic_link_once:
  "(\<forall>pending. pending_links am token = Some pending \<and> \<not> now1 > pl_expires pending \<longrightarrow>
      (let email = pl_email pending;
           user_id = email_to_user_id email;
           expires = now2 + hours (session_duration_hours (auth_config am));
           am' = snd (verify_magic_link am token session_token now1 now2 now3)
       in fst (verify_magic_link am token session_token now1 now2 now3) =
            VerifySuccess session_token user_id email expires
          \<and> sessions am' session_token =
              Some \<lparr>s_user_id = user_id, s_email = email, s_expires = expires, s_created = now3\<rparr>
          \<and> pending_links am' token = None
          \<and> (\<forall>token'. token' \<noteq> token \<longrightarrow> pending_links am' token' = pending_links am token')
          \<and> (\<forall>tok'. tok' \<noteq> session_token \<longrightarrow> sessions am' tok' = sessions am tok')
          \<and> verify_magic_link am' token session_token' now1' now2' now3' =
              (VerifyFailure ''Invalid or expired link'', am')))
   \<and> (\<forall>pending. pending_links am token = Some pending \<and> now1 > pl_expires pending \<longrightarrow>
        verify_magic_link am token session_token now1 now2 now3 =
          (VerifyFailure ''Link has expired'',
           am\<lparr>pending_links := (pending_links am)(token := None)\<rparr>)
        \<and> pending_links (snd (verify_magic_link am token session_token now1 now2 now3)) token
            = None)"
  by (simp add: verify_magic_link_def Let_def)

theorem verify_magic_link_once_witness:
  "pending_links
     (snd (send_magic_link (AuthManager_init AuthConfig_init) ''bob@virginia.edu'' ''link-1'' 0))
     ''link-1'' = Some \<lparr>pl_email = ''bob@virginia.edu'', pl_expires = 900000000\<rparr>
   \<and> fst (verify_magic_link
        (snd (send_magic_link (AuthManager_init AuthConfig_init) ''bob@virginia.edu'' ''link-1'' 0))
        ''link-1'' ''session-1'' 5 6 7) =
       VerifySuccess ''session-1'' ''bob'' ''bob@virginia.edu'' 86400000006
   \<and> fst (verify_magic_link
        (snd (verify_magic_link
          (snd (send_magic_link (AuthManager_init AuthConfig_init) ''bob@virginia.edu''
                  ''link-1'' 0))
          ''link-1'' ''session-1'' 5 6 7))
        ''link-1'' ''session-2'' 8 9 10) = VerifyFailure ''Invalid or expired link''
   \<and> fst (verify_magic_link
        (snd (send_magic_link (AuthManager_init AuthConfig_init) ''bob@virginia.edu'' ''link-1'' 0))
        ''link-1'' ''session-1'' 900000001 900000002 900000003) =
       VerifyFailure ''Link has expired''"
  using verify_magic_link_once
    [of "snd (send_magic_link (AuthManager_init AuthConfig_init) ''bob@virginia.edu''
                ''link-1'' 0)"
        "''link-1''" 5 6 "''session-1''" 7 "''session-2''" 8 9 10]
    verify_magic_link_once
    [of "snd (send_magic_link (AuthManager_init AuthConfig_init) ''bob@virginia.edu''
                ''link-1'' 0)"
        "''link-1''" 900000001 900000002 "''session-1''" 900000003 "''session-2''" 8 9 10]
  by (simp add: send_magic_link_def AuthManager_init_def AuthConfig_init_def validate_email_def
        minutes_def hours_def Let_def bob_user_id)

text \<open>
  Claim C6. \<^verbatim>\<open>validate_session\<close> returns \<^verbatim>\<open>None\<close> for an unknown token; for a session
  looked up after its expiry it returns \<^verbatim>\<open>None\<close> and the session is gone from the store
  after that same call; for a session that has not expired it returns the user id, the
  email and the expiry stored in the session and leaves the store as it is. For a session
  issued by \<^verbatim>\<open>verify_magic_link\<close> these are the user id and email fixed at issuance.
\<close>

theorem validate_session_lazy_expiry:
  "(sessions am tok = None \<longrightarrow> validate_session am tok now = (None, am))
   \<and> (\<forall>s. sessions am tok = Some s \<and> now > s_expires s \<longrightarrow>
          validate_session am tok now = (None, am\<lparr>sessions := (sessions am)(tok := None)\<rparr>)
          \<and> sessions (snd (validate_session am tok now)) tok = None)
   \<and> (\<forall>s. sessions am tok = Some s \<and> \<not> now > s_expires s \<longrightarrow>
          validate_session am tok now =
            (Some \<lparr>ui_user_id = s_user_id s, ui_email = s_email s, ui_expires = s_expires s\<rparr>, am))
   \<and> (\<forall>p. pending_links am0 link = Some p \<and> \<not> n1 > pl_expires p
            \<and> \<not> now > n2 + hours (session_duration_hours (auth_config am0)) \<longrightarrow>
          fst (validate_session (snd (verify_magic_link am0 link tok n1 n2 n3)) tok now) =
            Some \<lparr>ui_user_id = email_to_user_id (pl_email p), ui_email = pl_email p,
                  ui_expires = n2 + hours (session_duration_hours (auth_config am0))\<rparr>)"
  by (simp add: validate_session_def verify_magic_link_def Let_def)

theorem validate_session_lazy_expiry_witness:
  "validate_session (AuthManager_init AuthConfig_init) ''nobody'' 0 =
     (None, AuthManager_init AuthConfig_init)
   \<and> fst (validate_session
        ((AuthManager_init AuthConfig_init)
           \<lparr>sessions := [''session-1'' \<mapsto> \<lparr>s_user_id = ''bob'', s_email = ''bob@virginia.edu'',
                                           s_expires = 100, s_created = 0\<rparr>]\<rparr>)
        ''session-1'' 101) = None
   \<and> sessions (snd (validate_session
        ((AuthManager_init AuthConfig_init)
           \<lparr>sessions := [''session-1'' \<mapsto> \<lparr>s_user_id = ''bob'', s_email = ''bob@virginia.edu'',
                                           s_expires = 100, s_created = 0\<rparr>]\<rparr>)
        ''session-1'' 101)) ''session-1'' = None
   \<and> fst (validate_session
        ((AuthManager_init AuthConfig_init)
           \<lparr>sessions := [''session-1'' \<mapsto> \<lparr>s_user_id = ''bob'', s_email = ''bob@virginia.edu'',
                                           s_expires = 100, s_created = 0\<rparr>]\<rparr>)
        ''session-1'' 100) =
       Some \<lparr>ui_user_id = ''bob'', ui_email = ''bob@virginia.edu'', ui_expires = 100\<rparr>
   \<and> fst (validate_session
        (snd (verify_magic_link
          ((AuthManager_init AuthConfig_init)
             \<lparr>pending_links := [''link-1'' \<mapsto> \<lparr>pl_email = ''bob@virginia.edu'',
                                               pl_expires = 900000000\<rparr>]\<rparr>)
          ''link-1'' ''session-1'' 5 6 7))
        ''session-1'' 8) =
       Some \<lparr>ui_user_id = ''bob'', ui_email = ''bob@virginia.edu'', ui_expires = 86400000006\<rparr>"
  using validate_session_lazy_expiry
    [of "AuthManager_init AuthConfig_init" "''nobody''" 0
        "(AuthManager_init AuthConfig_init)
           \<lparr>pending_links := [''link-1'' \<mapsto> \<lparr>pl_email = ''bob@virginia.edu'',
                                             pl_expires = 900000000\<rparr>]\<rparr>"
        "''link-1''" 5 6 7]
    validate_session_lazy_expiry
    [of "(AuthManager_init AuthConfig_init)
           \<lparr>sessions := [''session-1'' \<mapsto> \<lparr>s_user_id = ''bob'', s_email = ''bob@virginia.edu'',
                                           s_expires = 100, s_created = 0\<rparr>]\<rparr>"
        "''session-1''" 101
        "(AuthManager_init AuthConfig_init)
           \<lparr>pending_links := [''link-1'' \<mapsto> \<lparr>pl_email = ''bob@virginia.edu'',
                                             pl_expires = 900000000\<rparr>]\<rparr>"
        "''link-1''" 5 6 7]
    validate_session_lazy_expiry
    [of "(AuthManager_init AuthConfig_init)
           \<lparr>sessions := [''session-1'' \<mapsto> \<lparr>s_user_id = ''bob'', s_email = ''bob@virginia.edu'',
                                           s_expires = 100, s_created = 0\<rparr>]\<rparr>"
        "''session-1''" 100
        "(AuthManager_init AuthConfig_init)
           \<lparr>pending_links := [''link-1'' \<mapsto> \<lparr>pl_email = ''bob@virginia.edu'',
                                             pl_expires = 900000000\<rparr>]\<rparr>"
        "''link-1''" 5 6 7]
    validate_session_lazy_expiry
    [of "snd (verify_magic_link
          ((AuthManager_init AuthConfig_init)
             \<lparr>pending_links := [''link-1'' \<mapsto> \<lparr>pl_email = ''bob@virginia.edu'',
                                               pl_expires = 900000000\<rparr>]\<rparr>)
          ''link-1'' ''session-1'' 5 6 7)"
        "''session-1''" 8
        "(AuthManager_init AuthConfig_init)
           \<lparr>pending_links := [''link-1'' \<mapsto> \<lparr>pl_email = ''bob@virginia.edu'',
                                             pl_expires = 900000000\<rparr>]\<rparr>"
        "''link-1''" 5 6 7]
  by (simp add: AuthManager_init_def AuthConfig_init_def hours_def bob_user_id)

text \<open>
  Claim C9, as the code has it. The derivation reads nothing but the email. An email
  ending in \<^verbatim>\<open>@virginia.edu\<close> maps to what precedes its first \<^verbatim>\<open>@\<close>, whatever domain the
  hub is configured with; any other email maps to the first 12 hexadecimal digits of its
  SHA-256, a string of length 12; equal emails give equal user ids.
\<close>

theorem email_to_user_id_fixed_domain:
  "(suffix ''@virginia.edu'' email \<longrightarrow>
      email_to_user_id email = takeWhile (\<lambda>c. c \<noteq> CHR ''@'') email)
   \<and> (\<not> suffix ''@virginia.edu'' email \<longrightarrow>
        email_to_user_id email = take 12 (hexdigest (sha256 (encode email)))
        \<and> length (email_to_user_id email) = 12)
   \<and> (email = email' \<longrightarrow> email_to_user_id email = email_to_user_id email')"
  by (simp add: email_to_user_id_def hexdigest_length)

theorem email_to_user_id_fixed_domain_witness:
  "suffix ''@virginia.edu'' ''bob@virginia.edu''
   \<and> email_to_user_id ''bob@virginia.edu'' = ''bob''
   \<and> \<not> suffix ''@virginia.edu'' ''bob@other.edu''
   \<and> length (email_to_user_id ''bob@other.edu'') = 12
   \<and> email_to_user_id ''bob@virginia.edu'' = email_to_user_id ''bob@virginia.edu''"
  using email_to_user_id_fixed_domain [of "''bob@virginia.edu''" "''bob@virginia.edu''"]
    email_to_user_id_fixed_domain [of "''bob@other.edu''" "''bob@other.edu''"]
  by (simp add: suffix_to_prefix hexdigest_length)

text \<open>
  Claim C9 as stated fails: in a hub configured with the domain \<^verbatim>\<open>example.com\<close>, the
  email \<^verbatim>\<open>bob@example.com\<close> matches the configured domain and its user id is a hash, not
  the local part \<^verbatim>\<open>bob\<close>.
\<close>

theorem email_to_user_id_configured_domain_counterexample:
  "validate_email (AuthConfig_init\<lparr>email_domain := Some ''example.com''\<rparr>) ''bob@example.com''
   \<and> email_to_user_id ''bob@example.com'' = ''5ff860bf1190''
   \<and> email_to_user_id ''bob@example.com'' \<noteq> ''bob''"
proof -
  have v: "validate_email (AuthConfig_init\<lparr>email_domain := Some ''example.com''\<rparr>)
             ''bob@example.com''"
    by (simp add: validate_email_def AuthConfig_init_def suffix_to_prefix)
  have h: "email_to_user_id ''bob@example.com'' = ''5ff860bf1190''"
    by code_simp
  from v h show ?thesis by simp
qed

text \<open>
  Claim C10. After two \<^verbatim>\<open>send_magic_link\<close> calls for one valid email, with distinct tokens,
  both links are pending at once. Each of them, verified before its own expiry, succeeds
  and stores its own session for the same user id, in either order, and each of them fails
  with \<^verbatim>\<open>Invalid or expired link\<close> when verified once more.
\<close>

theorem second_magic_link_keeps_first:
  assumes "validate_email (auth_config am) email"
    and "t1 \<noteq> t2" and "s1 \<noteq> s2"
    and "\<not> v1 > n1 + minutes 15" and "\<not> v2 > n2 + minutes 15"
  shows
    "(let am1 = snd (send_magic_link am email t1 n1);
          am2 = snd (send_magic_link am1 email t2 n2);
          user_id = email_to_user_id email;
          d = hours (session_duration_hours (auth_config am));
          sess1 = \<lparr>s_user_id = user_id, s_email = email, s_expires = a1 + d, s_created = b1\<rparr>;
          sess2 = \<lparr>s_user_id = user_id, s_email = email, s_expires = a2 + d, s_created = b2\<rparr>
      in fst (send_magic_link am email t1 n1) = LinkSent (''Magic link sent to '' @ email) t1
       \<and> fst (send_magic_link am1 email t2 n2) = LinkSent (''Magic link sent to '' @ email) t2
       \<and> pending_links am2 t1 = Some \<lparr>pl_email = email, pl_expires = n1 + minutes 15\<rparr>
       \<and> pending_links am2 t2 = Some \<lparr>pl_email = email, pl_expires = n2 + minutes 15\<rparr>
       \<and> (let am3 = snd (verify_magic_link am2 t1 s1 v1 a1 b1);
               am4 = snd (verify_magic_link am3 t2 s2 v2 a2 b2)
           in fst (verify_magic_link am2 t1 s1 v1 a1 b1) = VerifySuccess s1 user_id email (a1 + d)
            \<and> fst (verify_magic_link am3 t2 s2 v2 a2 b2) = VerifySuccess s2 user_id email (a2 + d)
            \<and> sessions am4 s1 = Some sess1 \<and> sessions am4 s2 = Some sess2
            \<and> fst (verify_magic_link am4 t1 s3 v3 a3 b3) = VerifyFailure ''Invalid or expired link''
            \<and> fst (verify_magic_link am4 t2 s3 v3 a3 b3) = VerifyFailure ''Invalid or expired link'')
       \<and> (let am3 = snd (verify_magic_link am2 t2 s2 v2 a2 b2);
               am4 = snd (verify_magic_link am3 t1 s1 v1 a1 b1)
           in fst (verify_magic_link am2 t2 s2 v2 a2 b2) = VerifySuccess s2 user_id email (a2 + d)
            \<and> fst (verify_magic_link am3 t1 s1 v1 a1 b1) = VerifySuccess s1 user_id email (a1 + d)
            \<and> sessions am4 s1 = Some sess1 \<and> sessions am4 s2 = Some sess2
            \<and> fst (verify_magic_link am4 t1 s3 v3 a3 b3) = VerifyFailure ''Invalid or expired link''
            \<and> fst (verify_magic_link am4 t2 s3 v3 a3 b3) = VerifyFailure ''Invalid or expired link''))"
  using assms by (simp add: send_magic_link_def verify_magic_link_def Let_def)

theorem second_magic_link_keeps_first_witness:
  "validate_email (auth_config (AuthManager_init (AuthConfig_init\<lparr>email_domain := Some ''virginia.edu''\<rparr>)))
     ''bob@virginia.edu''
   \<and> ''link-1'' \<noteq> ''link-2'' \<and> ''session-1'' \<noteq> ''session-2''
   \<and> \<not> (20::int) > 0 + minutes 15 \<and> \<not> (30::int) > 10 + minutes 15
   \<and> fst (verify_magic_link
        (snd (verify_magic_link
          (snd (send_magic_link
            (snd (send_magic_link
              (AuthManager_init (AuthConfig_init\<lparr>email_domain := Some ''virginia.edu''\<rparr>))
              ''bob@virginia.edu'' ''link-1'' 0))
            ''bob@virginia.edu'' ''link-2'' 10))
          ''link-2'' ''session-2'' 30 31 32))
        ''link-1'' ''session-1'' 20 21 22) =
       VerifySuccess ''session-1'' ''bob'' ''bob@virginia.edu'' 86400000021"
proof -
  have v: "validate_email (auth_config (AuthManager_init (AuthConfig_init\<lparr>email_domain := Some ''virginia.edu''\<rparr>)))
     ''bob@virginia.edu''"
    by (simp add: validate_email_def AuthManager_init_def AuthConfig_init_def suffix_to_prefix)
  have t: "''link-1'' \<noteq> ''link-2''" and s: "''session-1'' \<noteq> ''session-2''"
    by simp_all
  have a: "\<not> (20::int) > 0 + minutes 15" and b: "\<not> (30::int) > 10 + minutes 15"
    by (simp_all add: minutes_def)
  show ?thesis
    using second_magic_link_keeps_first [OF v t s a b, of 21 22 31 32 "''session-3''" 40 41 42] v
    by (simp add: Let_def AuthManager_init_def AuthConfig_init_def hours_def minutes_def
          bob_user_id)
qed

section \<open>Consent\<close>

text \<open>
  Claim C7, as the code has it. For a user without a consent record \<^verbatim>\<open>revoke_consent\<close>
  fails and leaves the manager as it is: with \<^verbatim>\<open>No consent record found\<close> when the policy
  allows revocation, with \<^verbatim>\<open>Consent cannot be revoked for this hub\<close> when it does not.
  \<^verbatim>\<open>has_consented\<close> is the same before and after; it is false when the policy requires
  consent, and true when the policy does not require consent.
\<close>

theorem revoke_consent_without_record:
  "consents cm user_id = None \<Longrightarrow>
     revoke_consent cm user_id now =
       (ConsentFailure (if revocable (consent_config cm) then ''No consent record found''
                        else ''Consent cannot be revoked for this hub''), cm)
     \<and> has_consented (snd (revoke_consent cm user_id now)) user_id = has_consented cm user_id
     \<and> (required (consent_config cm) \<longrightarrow>
          \<not> has_consented cm user_id
          \<and> \<not> has_consented (snd (revoke_consent cm user_id now)) user_id)
     \<and> (\<not> required (consent_config cm) \<longrightarrow> has_consented cm user_id)"
  by (simp add: revoke_consent_def has_consented_def)

theorem revoke_consent_without_record_witness:
  "consents (ConsentManager_init ConsentConfig_init) ''u1'' = None
   \<and> revoke_consent (ConsentManager_init ConsentConfig_init) ''u1'' 0 =
       (ConsentFailure ''No consent record found'', ConsentManager_init ConsentConfig_init)
   \<and> \<not> has_consented (ConsentManager_init ConsentConfig_init) ''u1''
   \<and> revoke_consent (ConsentManager_init (ConsentConfig_init\<lparr>revocable := False\<rparr>)) ''u1'' 0 =
       (ConsentFailure ''Consent cannot be revoked for this hub'',
        ConsentManager_init (ConsentConfig_init\<lparr>revocable := False\<rparr>))
   \<and> has_consented (ConsentManager_init (ConsentConfig_init\<lparr>required := False\<rparr>)) ''u1''"
proof -
  have a: "consents (ConsentManager_init ConsentConfig_init) ''u1'' = None"
    and b: "consents (ConsentManager_init (ConsentConfig_init\<lparr>revocable := False\<rparr>)) ''u1'' = None"
    and c: "consents (ConsentManager_init (ConsentConfig_init\<lparr>required := False\<rparr>)) ''u1'' = None"
    by (simp_all add: ConsentManager_init_def)
  show ?thesis
    using a revoke_consent_without_record [OF a, of 0] revoke_consent_without_record [OF b, of 0]
      revoke_consent_without_record [OF c, of 0]
    by (simp add: ConsentManager_init_def ConsentConfig_init_def)
qed

text \<open>
  Claim C7 as stated fails: under a policy that does not require consent, a user without
  a record gets the no-record error from \<^verbatim>\<open>revoke_consent\<close> while \<^verbatim>\<open>has_consented\<close> is true,
  before and after.
\<close>

theorem revoke_consent_not_required_counterexample:
  "consents (ConsentManager_init (ConsentConfig_init\<lparr>required := False\<rparr>)) ''u1'' = None
   \<and> fst (revoke_consent (ConsentManager_init (ConsentConfig_init\<lparr>required := False\<rparr>)) ''u1'' 0)
       = ConsentFailure ''No consent record found''
   \<and> has_consented (ConsentManager_init (ConsentConfig_init\<lparr>required := False\<rparr>)) ''u1''
   \<and> has_consented
       (snd (revoke_consent (ConsentManager_init (ConsentConfig_init\<lparr>required := False\<rparr>))
               ''u1'' 0)) ''u1''"
  by (simp add: revoke_consent_def has_consented_def ConsentManager_init_def
        ConsentConfig_init_def)

section \<open>The dispatch pipeline\<close>

lemma py_contains_dict: "py_contains k (JObj d) = Inr (map_of d k \<noteq> None)"
  by (simp add: map_of_eq_None_iff)

lemma first_data_part_dicts:
  "first_data_part (map JObj ps) =
     Inr (map_option (\<lambda>p. case map_of p ''data'' of Some v \<Rightarrow> v | None \<Rightarrow> JObj [])
            (find (\<lambda>p. map_of p ''kind'' = Some (JStr ''data'')) ps))"
  by (induction ps) (auto split: option.splits)

lemma dict_update_Cons:
  "dict_update d (p # ps) = dict_update (AList.update (fst p) (snd p) d) ps"
  by (simp add: dict_update_def)

lemma dict_update_lookup:
  "distinct (map fst ps) \<Longrightarrow>
     map_of (dict_update d ps) k =
       (case map_of ps k of Some v \<Rightarrow> Some v | None \<Rightarrow> map_of d k)"
proof (induction ps arbitrary: d)
  case Nil
  then show ?case by (simp add: dict_update_def)
next
  case (Cons p ps)
  from Cons.prems have d: "distinct (map fst ps)" and n: "fst p \<notin> fst ` set ps"
    by simp_all
  from n have none: "map_of ps (fst p) = None"
    by (simp add: map_of_eq_None_iff)
  show ?case
    using Cons.IH [OF d, of "AList.update (fst p) (snd p) d"] none
    by (cases p) (auto simp: dict_update_Cons update_conv' split: option.splits)
qed

lemma example_hub_initialized: "initialized example_hub"
  by (simp add: example_hub_def initialize_def)

lemma example_hub_agent_a:
  "agents example_hub ''agent_a'' =
     Some (AgentConnection_init ''agent_a'' ''http://localhost:8001''
             \<lparr>exposed = [''skill_1'', ''skill_2''], hidden = [''skill_3''],
              internal = [''skill_4'']\<rparr>)"
  by (simp add: example_hub_def initialize_def)

lemma example_hub_agent_b:
  "agents example_hub ''agent_b'' =
     Some (AgentConnection_init ''agent_b'' ''http://localhost:8002''
             \<lparr>exposed = [''skill_x''], hidden = [''skill_y''], internal = []\<rparr>)"
  by (simp add: example_hub_def initialize_def)

lemma example_hub_no_tracker: "agents example_hub ''tracker'' = None"
  by (simp add: example_hub_def initialize_def)

lemma example_hub_action_1:
  "get_action example_hub ''action_1'' =
     Some (HubAction_init ''action_1'' ''Action One'' [] ''agent_a'' ''skill_1'')"
  by (simp add: example_hub_def initialize_def get_action_def HubAction_init_def)

lemma example_hub_action_3:
  "get_action example_hub ''action_3'' =
     Some (HubAction_init ''action_3'' ''Action Three'' [] ''agent_a'' ''skill_3'')"
  by (simp add: example_hub_def initialize_def get_action_def HubAction_init_def)

text \<open>
  With the identifiers of the loaded actions distinct (\<^verbatim>\<open>id: str  # Unique identifier\<close>),
  the identifier of a loaded action resolves to that action.
\<close>

lemma get_action_loaded:
  "action \<in> set (actions hub) \<Longrightarrow> distinct (map act_id (actions hub)) \<Longrightarrow>
     get_action hub (act_id action) = Some action"
proof -
  have "a \<in> set xs \<Longrightarrow> distinct (map act_id xs) \<Longrightarrow>
          find (\<lambda>x. act_id x = act_id a) xs = Some a" for a :: HubAction and xs
    by (induction xs) (auto simp: rev_image_eqI)
  then show "action \<in> set (actions hub) \<Longrightarrow> distinct (map act_id (actions hub)) \<Longrightarrow>
     get_action hub (act_id action) = Some action"
    by (simp add: get_action_def)
qed

text \<open>
  Claim C1. In an initialized hub, when the action the id resolves to has a skill outside
  the exposed list of its agent, \<^verbatim>\<open>handle_action\<close> raises \<^verbatim>\<open>PermissionError\<close> and the trace
  is the one it started with: no hook has run, no precondition has been evaluated, no
  identifier has been drawn and no request has been posted, whatever the environment.
\<close>

theorem handle_action_permission_denied:
  assumes "initialized hub"
    and "get_action hub action_id = Some action"
    and "agents hub (act_agent action) = Some agent"
    and "act_skill action \<notin> set (exposed (skill_exposure agent))"
  shows "handle_action hub ev t action_id user_id params =
           (Inl (PermissionError (''Skill '' @ act_skill action
                   @ '' is not available in this hub'')), t)
         \<and> filter is_hook (snd (handle_action hub ev t action_id user_id params))
             = filter is_hook t
         \<and> posts_made (snd (handle_action hub ev t action_id user_id params)) = posts_made t
         \<and> uuids_drawn (snd (handle_action hub ev t action_id user_id params)) = uuids_drawn t"
  using assms by (simp add: handle_action_def is_user_callable_def)

theorem handle_action_permission_denied_witness:
  "initialized example_hub
   \<and> get_action example_hub ''action_3'' =
       Some (HubAction_init ''action_3'' ''Action Three'' [] ''agent_a'' ''skill_3'')
   \<and> ''skill_3'' \<in> set (hidden \<lparr>exposed = [''skill_1'', ''skill_2''], hidden = [''skill_3''],
                                  internal = [''skill_4'']\<rparr>)
   \<and> ''skill_3'' \<notin> set (exposed \<lparr>exposed = [''skill_1'', ''skill_2''], hidden = [''skill_3''],
                                   internal = [''skill_4'']\<rparr>)
   \<and> handle_action example_hub example_env [] ''action_3'' ''u1'' [] =
       (Inl (PermissionError ''Skill skill_3 is not available in this hub''), [])"
proof -
  have ag: "agents example_hub
              (act_agent (HubAction_init ''action_3'' ''Action Three'' [] ''agent_a'' ''skill_3''))
            = Some (AgentConnection_init ''agent_a'' ''http://localhost:8001''
                     \<lparr>exposed = [''skill_1'', ''skill_2''], hidden = [''skill_3''],
                      internal = [''skill_4'']\<rparr>)"
    by (simp add: HubAction_init_def example_hub_agent_a)
  have sk: "act_skill (HubAction_init ''action_3'' ''Action Three'' [] ''agent_a'' ''skill_3'')
              \<notin> set (exposed (skill_exposure
                    (AgentConnection_init ''agent_a'' ''http://localhost:8001''
                       \<lparr>exposed = [''skill_1'', ''skill_2''], hidden = [''skill_3''],
                        internal = [''skill_4'']\<rparr>)))"
    by (simp add: HubAction_init_def AgentConnection_init_def)
  show ?thesis
    using handle_action_permission_denied
      [OF example_hub_initialized example_hub_action_3 ag sk, of example_env "[]" "''u1''" "[]"]
      example_hub_initialized example_hub_action_3
    by (simp add: HubAction_init_def)
qed

text \<open>
  Claim C2, as the code has it. The hooks are called without any exception handler. Past
  the permission check: when \<^verbatim>\<open>on_action_start\<close> raises, \<^verbatim>\<open>handle_action\<close> raises that
  exception and nothing else has happened (no precondition check, no routing); when the
  action has been routed with result \<open>result\<close> and \<^verbatim>\<open>on_action_complete\<close> raises,
  \<^verbatim>\<open>handle_action\<close> raises that exception instead of returning \<open>result\<close>; when
  \<^verbatim>\<open>on_action_complete\<close> returns, \<^verbatim>\<open>handle_action\<close> returns the result as the hook leaves it,
  which is \<open>result\<close> itself for a hook that does not modify its argument.
\<close>

theorem handle_action_hooks_unguarded:
  assumes "initialized hub"
    and "get_action hub action_id = Some action"
    and "agents hub (act_agent action) = Some agent"
    and "is_user_callable (skill_exposure agent) (act_skill action)"
  shows
    "(\<forall>e. on_action_start ev action_id user_id params = Inl e \<longrightarrow>
        handle_action hub ev t action_id user_id params =
          (Inl e, t @ [ActionStartHook action_id user_id params]))
     \<and> (\<forall>params1 t2 result t3.
          on_action_start ev action_id user_id params = Inr params1
          \<and> precondition_step hub ev (t @ [ActionStartHook action_id user_id params])
                action user_id params1 = (Inr None, t2)
          \<and> route_action (agents hub) ev t2 action user_id params1 = (Inr result, t3) \<longrightarrow>
          (\<forall>e. on_action_complete ev action_id user_id result = Inl e \<longrightarrow>
             handle_action hub ev t action_id user_id params =
               (Inl e, t3 @ [ActionCompleteHook action_id user_id result]))
          \<and> (\<forall>result1. on_action_complete ev action_id user_id result = Inr result1 \<longrightarrow>
               handle_action hub ev t action_id user_id params =
                 (Inr result1, t3 @ [ActionCompleteHook action_id user_id result])))"
  using assms by (simp add: handle_action_def)

lemma example_action_1_callable:
  "agents example_hub
     (act_agent (HubAction_init ''action_1'' ''Action One'' [] ''agent_a'' ''skill_1''))
     = Some (AgentConnection_init ''agent_a'' ''http://localhost:8001''
               \<lparr>exposed = [''skill_1'', ''skill_2''], hidden = [''skill_3''],
                internal = [''skill_4'']\<rparr>)"
  "is_user_callable
     (skill_exposure (AgentConnection_init ''agent_a'' ''http://localhost:8001''
               \<lparr>exposed = [''skill_1'', ''skill_2''], hidden = [''skill_3''],
                internal = [''skill_4'']\<rparr>))
     (act_skill (HubAction_init ''action_1'' ''Action One'' [] ''agent_a'' ''skill_1''))"
  by (simp_all add: HubAction_init_def example_hub_agent_a AgentConnection_init_def
        is_user_callable_def)

lemmas pipeline_defs =
  handle_action_def precondition_step_def route_action_def check_precondition_def
  send_to_agent_def build_a2a_message_def unwrap_response_def extract_result_def
  interpret_precondition_def precondition_target_def
  bind_exn_def dict_update_def uuids_drawn_def posts_made_def Let_def
  is_user_callable_def is_hub_callable_def HubAction_init_def AgentConnection_init_def
  example_env_def

theorem handle_action_hooks_unguarded_witness:
  "initialized example_hub
   \<and> on_action_start (example_env\<lparr>on_action_start := \<lambda>a u p. Inl (RuntimeError ''hook failed'')\<rparr>)
        ''action_1'' ''u1'' [] = Inl (RuntimeError ''hook failed'')
   \<and> handle_action example_hub
        (example_env\<lparr>on_action_start := \<lambda>a u p. Inl (RuntimeError ''hook failed'')\<rparr>)
        [] ''action_1'' ''u1'' [] =
       (Inl (RuntimeError ''hook failed''), [ActionStartHook ''action_1'' ''u1'' []])
   \<and> fst (route_action (agents example_hub)
        (example_env\<lparr>on_action_complete := \<lambda>a u r. Inl (RuntimeError ''hook failed'')\<rparr>)
        [ActionStartHook ''action_1'' ''u1'' []]
        (HubAction_init ''action_1'' ''Action One'' [] ''agent_a'' ''skill_1'') ''u1'' []) =
       Inr (JObj [(''status'', JStr ''ok'')])
   \<and> fst (handle_action example_hub
        (example_env\<lparr>on_action_complete := \<lambda>a u r. Inl (RuntimeError ''hook failed'')\<rparr>)
        [] ''action_1'' ''u1'' []) = Inl (RuntimeError ''hook failed'')
   \<and> fst (handle_action example_hub
        (example_env\<lparr>on_action_complete := \<lambda>a u r. Inr (JStr ''replaced'')\<rparr>)
        [] ''action_1'' ''u1'' []) = Inr (JStr ''replaced'')"
  using handle_action_hooks_unguarded
      [OF example_hub_initialized example_hub_action_1 example_action_1_callable,
       where ev = "example_env\<lparr>on_action_start := \<lambda>a u p. Inl (RuntimeError ''hook failed'')\<rparr>"
         and user_id = "''u1''" and params = "[]" and t = "[]"]
    handle_action_hooks_unguarded
      [OF example_hub_initialized example_hub_action_1 example_action_1_callable,
       where ev = "example_env\<lparr>on_action_complete := \<lambda>a u r. Inl (RuntimeError ''hook failed'')\<rparr>"
         and user_id = "''u1''" and params = "[]" and t = "[]"]
    handle_action_hooks_unguarded
      [OF example_hub_initialized example_hub_action_1 example_action_1_callable,
       where ev = "example_env\<lparr>on_action_complete := \<lambda>a u r. Inr (JStr ''replaced'')\<rparr>"
         and user_id = "''u1''" and params = "[]" and t = "[]"]
    example_hub_initialized
  by (simp add: precondition_step_def route_action_def send_to_agent_def
        build_a2a_message_def unwrap_response_def extract_result_def bind_exn_def
        dict_update_def uuids_drawn_def posts_made_def Let_def is_hub_callable_def
        HubAction_init_def AgentConnection_init_def example_env_def example_hub_agent_a)

text \<open>
  Claim C2 as stated fails. With hooks that return, the run of \<^verbatim>\<open>action_1\<close> returns the
  agent's result. With an \<^verbatim>\<open>on_action_start\<close> that raises, the same call raises the hook's
  exception and no request is posted; with an \<^verbatim>\<open>on_action_complete\<close> that raises, the same
  call raises the hook's exception in place of the result.
\<close>

theorem handle_action_hook_failure_counterexample:
  "fst (handle_action example_hub example_env [] ''action_1'' ''u1'' []) =
     Inr (JObj [(''status'', JStr ''ok'')])
   \<and> handle_action example_hub
        (example_env\<lparr>on_action_start := \<lambda>a u p. Inl (RuntimeError ''hook failed'')\<rparr>)
        [] ''action_1'' ''u1'' [] =
       (Inl (RuntimeError ''hook failed''), [ActionStartHook ''action_1'' ''u1'' []])
   \<and> fst (handle_action example_hub
        (example_env\<lparr>on_action_complete := \<lambda>a u r. Inl (RuntimeError ''hook failed'')\<rparr>)
        [] ''action_1'' ''u1'' []) = Inl (RuntimeError ''hook failed'')"
  by (simp add: pipeline_defs example_hub_initialized example_hub_action_1 example_hub_agent_a)

text \<open>
  Claim C3. A precondition naming an unregistered agent is reported satisfied, without
  any effect. A precondition naming a registered agent whose request fails is reported
  unsatisfied, with the text of the exception as message. A reference without a dot is
  addressed to the agent \<^verbatim>\<open>le_veilleur\<close>. In no case does \<^verbatim>\<open>check_precondition\<close> raise.
\<close>

theorem check_precondition_open_and_closed:
  "(ags (fst (precondition_target ref)) = None \<longrightarrow>
      check_precondition ags ev t ref user_id params =
        (Inr (JObj [(''satisfied'', JBool True)]), t))
   \<and> (\<forall>agent e.
        ags (fst (precondition_target ref)) = Some agent
        \<and> post ev
            (posts_made (snd (build_a2a_message ev t (snd (precondition_target ref)) user_id
                                (dict_update [(''student_id'', JStr user_id)] params))))
            (conn_url agent)
            (fst (build_a2a_message ev t (snd (precondition_target ref)) user_id
                    (dict_update [(''student_id'', JStr user_id)] params))) = Inl e \<longrightarrow>
        check_precondition ags ev t ref user_id params =
          (Inr (JObj [(''satisfied'', JBool False), (''message'', JStr (exn_str e))]),
           snd (build_a2a_message ev t (snd (precondition_target ref)) user_id
                  (dict_update [(''student_id'', JStr user_id)] params))
             @ [Post (conn_url agent)
                  (fst (build_a2a_message ev t (snd (precondition_target ref)) user_id
                          (dict_update [(''student_id'', JStr user_id)] params)))]))
   \<and> (CHR ''.'' \<notin> set ref \<longrightarrow> precondition_target ref = (''le_veilleur'', ref))
   \<and> (\<exists>r. fst (check_precondition ags ev t ref user_id params) = Inr r)"
proof (intro conjI allI impI)
  assume "ags (fst (precondition_target ref)) = None"
  then show "check_precondition ags ev t ref user_id params =
               (Inr (JObj [(''satisfied'', JBool True)]), t)"
    by (cases "precondition_target ref") (simp add: check_precondition_def)
next
  fix agent e
  assume "ags (fst (precondition_target ref)) = Some agent
        \<and> post ev
            (posts_made (snd (build_a2a_message ev t (snd (precondition_target ref)) user_id
                                (dict_update [(''student_id'', JStr user_id)] params))))
            (conn_url agent)
            (fst (build_a2a_message ev t (snd (precondition_target ref)) user_id
                    (dict_update [(''student_id'', JStr user_id)] params))) = Inl e"
  then show "check_precondition ags ev t ref user_id params =
          (Inr (JObj [(''satisfied'', JBool False), (''message'', JStr (exn_str e))]),
           snd (build_a2a_message ev t (snd (precondition_target ref)) user_id
                  (dict_update [(''student_id'', JStr user_id)] params))
             @ [Post (conn_url agent)
                  (fst (build_a2a_message ev t (snd (precondition_target ref)) user_id
                          (dict_update [(''student_id'', JStr user_id)] params)))])"
    by (cases "precondition_target ref",
        cases "build_a2a_message ev t (snd (precondition_target ref)) user_id
                 (dict_update [(''student_id'', JStr user_id)] params)")
       (simp add: check_precondition_def send_to_agent_def bind_exn_def Let_def)
next
  assume "CHR ''.'' \<notin> set ref"
  then show "precondition_target ref = (''le_veilleur'', ref)"
    by (simp add: precondition_target_def)
next
  show "\<exists>r. fst (check_precondition ags ev t ref user_id params) = Inr r"
    by (auto simp: check_precondition_def Let_def split: prod.splits option.splits sum.splits)
qed

theorem check_precondition_open_and_closed_witness:
  "agents example_hub (fst (precondition_target ''tracker.check_pending'')) = None
   \<and> check_precondition (agents example_hub) example_env [] ''tracker.check_pending'' ''u1'' [] =
       (Inr (JObj [(''satisfied'', JBool True)]), [])
   \<and> fst (check_precondition (agents example_hub)
        (example_env\<lparr>post := \<lambda>n url m. Inl (HTTPError ''connection refused'')\<rparr>)
        [] ''agent_b.check_pending'' ''u1'' []) =
       Inr (JObj [(''satisfied'', JBool False), (''message'', JStr ''connection refused'')])
   \<and> CHR ''.'' \<notin> set ''check_pending''
   \<and> precondition_target ''check_pending'' = (''le_veilleur'', ''check_pending'')"
proof -
  have tr: "precondition_target ''tracker.check_pending'' = (''tracker'', ''check_pending'')"
    and ab: "precondition_target ''agent_b.check_pending'' = (''agent_b'', ''check_pending'')"
    by (simp_all add: precondition_target_def)
  show ?thesis
    using check_precondition_open_and_closed
      [of "agents example_hub" "''tracker.check_pending''" example_env "[]" "''u1''" "[]"]
      check_precondition_open_and_closed
      [of "agents example_hub" "''agent_b.check_pending''"
          "example_env\<lparr>post := \<lambda>n url m. Inl (HTTPError ''connection refused'')\<rparr>"
          "[]" "''u1''" "[]"]
      check_precondition_open_and_closed
      [of "agents example_hub" "''check_pending''" example_env "[]" "''u1''" "[]"]
    by (simp add: tr ab example_hub_no_tracker example_hub_agent_b)
qed

text \<open>
  Claim C4 at the parameters \<^verbatim>\<open>{"user_id": "mallory"}\<close> of the caller \<^verbatim>\<open>alice\<close>: the
  envelope names the skill, and the \<^verbatim>\<open>user_id\<close> of its parameter bag is \<^verbatim>\<open>mallory\<close>, not the
  caller's user id; this is the request \<^verbatim>\<open>handle_action\<close> posts to the agent.
\<close>

theorem build_a2a_message_user_id_overridden:
  "fst (build_a2a_message example_env [] ''skill_1'' ''alice'' [(''user_id'', JStr ''mallory'')]) =
     JObj
       [(''jsonrpc'', JStr ''2.0''),
        (''id'', JStr ''uuid-''),
        (''method'', JStr ''message/send''),
        (''params'', JObj
           [(''message'', JObj
              [(''role'', JStr ''user''),
               (''parts'', JList
                  [JObj
                     [(''kind'', JStr ''data''),
                      (''data'', JObj
                         [(''skill'', JStr ''skill_1''),
                          (''parameters'', JObj [(''user_id'', JStr ''mallory'')])])]]),
               (''messageId'', JStr ''uuid-''),
               (''kind'', JStr ''message'')])])]
   \<and> snd (handle_action example_hub example_env [] ''action_1'' ''alice''
             [(''user_id'', JStr ''mallory'')]) =
       [ActionStartHook ''action_1'' ''alice'' [(''user_id'', JStr ''mallory'')],
        Uuid4 ''uuid-'',
        Post ''http://localhost:8001''
          (fst (build_a2a_message example_env [] ''skill_1'' ''alice''
                  [(''user_id'', JStr ''mallory'')])),
        ActionCompleteHook ''action_1'' ''alice'' (JObj [(''status'', JStr ''ok'')])]"
  by (simp add: pipeline_defs example_hub_initialized example_hub_action_1 example_hub_agent_a)

text \<open>
  What does hold of the parameter bag: it is the dictionary \<^verbatim>\<open>{"user_id": user_id}\<close> updated
  with the caller's parameters, so the caller's user id is there exactly when the
  parameters have no \<^verbatim>\<open>user_id\<close> of their own.
\<close>

lemma parameter_bag_lookup:
  "distinct (map fst params) \<Longrightarrow>
     map_of (dict_update [(''user_id'', JStr user_id)] params) k =
       (case map_of params k of
          Some v \<Rightarrow> Some v
        | None \<Rightarrow> if k = ''user_id'' then Some (JStr user_id) else None)"
  by (simp add: dict_update_lookup split: option.splits)

lemma first_data_part_skip:
  "\<forall>q \<in> set pre. \<exists>pd. q = JObj pd \<and> map_of pd ''kind'' \<noteq> Some (JStr ''data'') \<Longrightarrow>
     first_data_part (pre @ rest) = first_data_part rest"
  by (induction pre) (auto split: option.splits)

lemma first_data_part_cases:
  "(\<forall>q \<in> set pre. \<exists>pd. q = JObj pd \<and> map_of pd ''kind'' \<noteq> Some (JStr ''data'')) \<Longrightarrow>
     first_data_part pre = Inr None
     \<and> (map_of p ''kind'' = Some (JStr ''data'') \<longrightarrow>
          first_data_part (pre @ JObj p # later) =
            Inr (Some (case map_of p ''data'' of Some v \<Rightarrow> v | None \<Rightarrow> JObj [])))
     \<and> ((\<forall>pd. x \<noteq> JObj pd) \<longrightarrow>
          (\<exists>m. first_data_part (pre @ x # later) = Inl (AttributeError m)))"
proof (intro conjI impI)
  assume pre: "\<forall>q \<in> set pre. \<exists>pd. q = JObj pd \<and> map_of pd ''kind'' \<noteq> Some (JStr ''data'')"
  from first_data_part_skip [OF pre, of "[]"] show "first_data_part pre = Inr None"
    by simp
  {
    assume "map_of p ''kind'' = Some (JStr ''data'')"
    then show "first_data_part (pre @ JObj p # later) =
            Inr (Some (case map_of p ''data'' of Some v \<Rightarrow> v | None \<Rightarrow> JObj []))"
      by (simp add: first_data_part_skip [OF pre])
  }
  {
    assume "\<forall>pd. x \<noteq> JObj pd"
    then show "\<exists>m. first_data_part (pre @ x # later) = Inl (AttributeError m)"
      by (cases x) (simp_all add: first_data_part_skip [OF pre])
  }
qed

lemma unwrap_response_object:
  "(map_of d ''result'' = Some res \<longrightarrow> unwrap_response ev (JObj d) = extract_result res)
   \<and> (map_of d ''result'' = None \<and> map_of d ''error'' = Some err \<longrightarrow>
        unwrap_response ev (JObj d) = Inl (Exception (''Agent error: '' @ py_str ev err)))
   \<and> (map_of d ''result'' = None \<and> map_of d ''error'' = None \<longrightarrow>
        unwrap_response ev (JObj d) = Inr (JObj d))"
  by (auto simp: unwrap_response_def bind_exn_def py_contains_dict simp del: py_contains.simps)

lemma unwrap_response_not_object:
  "(\<not> sublist ''result'' s \<and> \<not> sublist ''error'' s \<longrightarrow>
      unwrap_response ev (JStr s) = Inr (JStr s))
   \<and> (sublist ''result'' s \<or> sublist ''error'' s \<longrightarrow>
        (\<exists>m. unwrap_response ev (JStr s) = Inl (TypeError m)))
   \<and> (JStr ''result'' \<notin> set xs \<and> JStr ''error'' \<notin> set xs \<longrightarrow>
        unwrap_response ev (JList xs) = Inr (JList xs))
   \<and> (JStr ''result'' \<in> set xs \<or> JStr ''error'' \<in> set xs \<longrightarrow>
        (\<exists>m. unwrap_response ev (JList xs) = Inl (TypeError m)))
   \<and> (\<exists>m. unwrap_response ev JNull = Inl (TypeError m))
   \<and> (\<exists>m. unwrap_response ev (JBool b) = Inl (TypeError m))
   \<and> (\<exists>m. unwrap_response ev (JInt i) = Inl (TypeError m))"
  by (auto simp: unwrap_response_def bind_exn_def)

lemma extract_result_no_artifact:
  "(map_of r ''artifacts'' = None \<longrightarrow> extract_result (JObj r) = Inr (JObj r))
   \<and> (map_of r ''artifacts'' = Some arts
        \<and> arts \<in> {JNull, JBool False, JInt 0, JStr [], JList [], JObj []} \<longrightarrow>
        extract_result (JObj r) = Inr (JObj r))
   \<and> (\<not> sublist ''artifacts'' s \<longrightarrow> extract_result (JStr s) = Inr (JStr s))
   \<and> (sublist ''artifacts'' s \<longrightarrow> (\<exists>m. extract_result (JStr s) = Inl (TypeError m)))
   \<and> (JStr ''artifacts'' \<notin> set xs \<longrightarrow> extract_result (JList xs) = Inr (JList xs))
   \<and> (JStr ''artifacts'' \<in> set xs \<longrightarrow> (\<exists>m. extract_result (JList xs) = Inl (TypeError m)))
   \<and> (\<exists>m. extract_result JNull = Inl (TypeError m))
   \<and> (\<exists>m. extract_result (JBool b) = Inl (TypeError m))
   \<and> (\<exists>m. extract_result (JInt i) = Inl (TypeError m))"
  by (auto simp: extract_result_def bind_exn_def py_contains_dict simp del: py_contains.simps(1))

lemma extract_result_artifacts:
  "(map_of r ''artifacts'' = Some (JList (JObj a # rest)) \<longrightarrow>
      ((case map_of a ''parts'' of Some v \<Rightarrow> v | None \<Rightarrow> JList []) = JList ps \<longrightarrow>
         extract_result (JObj r) =
           (case first_data_part ps of
              Inl e \<Rightarrow> Inl e
            | Inr None \<Rightarrow> Inr (JObj r)
            | Inr (Some v) \<Rightarrow> Inr v))
      \<and> ((case map_of a ''parts'' of Some v \<Rightarrow> v | None \<Rightarrow> JList []) \<in> {JStr [], JObj []} \<longrightarrow>
           extract_result (JObj r) = Inr (JObj r))
      \<and> ((case map_of a ''parts'' of Some v \<Rightarrow> v | None \<Rightarrow> JList [])
             \<in> {JStr (c # cs), JObj (kv # kvs)} \<longrightarrow>
           (\<exists>m. extract_result (JObj r) = Inl (AttributeError m)))
      \<and> ((case map_of a ''parts'' of Some v \<Rightarrow> v | None \<Rightarrow> JList [])
             \<in> {JNull, JBool b, JInt i} \<longrightarrow>
           (\<exists>m. extract_result (JObj r) = Inl (TypeError m))))
   \<and> (map_of r ''artifacts'' = Some (JList (x # rest)) \<and> (\<forall>pd. x \<noteq> JObj pd) \<longrightarrow>
        (\<exists>m. extract_result (JObj r) = Inl (AttributeError m)))
   \<and> (map_of r ''artifacts'' = Some (JStr (c # cs)) \<longrightarrow>
        (\<exists>m. extract_result (JObj r) = Inl (AttributeError m)))
   \<and> (map_of r ''artifacts'' = Some (JObj (kv # kvs)) \<longrightarrow>
        (\<exists>m. extract_result (JObj r) = Inl (KeyError m)))
   \<and> (map_of r ''artifacts'' = Some (JBool True)
        \<or> map_of r ''artifacts'' = Some (JInt i) \<and> i \<noteq> 0 \<longrightarrow>
        (\<exists>m. extract_result (JObj r) = Inl (TypeError m)))"
proof (intro conjI impI)
  assume "map_of r ''artifacts'' = Some (JList (x # rest)) \<and> (\<forall>pd. x \<noteq> JObj pd)"
  then show "\<exists>m. extract_result (JObj r) = Inl (AttributeError m)"
    by (cases x)
       (simp_all add: extract_result_def bind_exn_def py_contains_dict del: py_contains.simps(1))
qed (auto simp: extract_result_def bind_exn_def py_contains_dict
       simp del: py_contains.simps(1) split: sum.splits option.splits)

text \<open>
  Claim C8, as the code has it. The member \<^verbatim>\<open>result\<close> of a response is looked at before the
  member \<^verbatim>\<open>error\<close>.

  \<^item> A response object with a member \<^verbatim>\<open>result\<close> gives what \<^verbatim>\<open>_extract_result\<close> gives for
    that member, with or without an error indicator. A response object without \<^verbatim>\<open>result\<close>
    and with \<^verbatim>\<open>error\<close> makes \<^verbatim>\<open>_send_to_agent\<close> raise an exception that carries the error; one
    with neither is returned as it is. A response that is a string or a list containing
    neither \<^verbatim>\<open>result\<close> nor \<^verbatim>\<open>error\<close> is returned as it is; any other response that is not an
    object raises \<^verbatim>\<open>TypeError\<close>.
  \<^item> A result object without \<^verbatim>\<open>artifacts\<close>, or whose \<^verbatim>\<open>artifacts\<close> is \<^verbatim>\<open>None\<close>, \<^verbatim>\<open>False\<close>, 0 or
    empty, is returned as it is; so is a result that is a string or a list not
    containing \<^verbatim>\<open>artifacts\<close>. A result that is \<^verbatim>\<open>None\<close>, a boolean or a number, or a string or
    list containing \<^verbatim>\<open>artifacts\<close>, raises \<^verbatim>\<open>TypeError\<close>.
  \<^item> A result object whose \<^verbatim>\<open>artifacts\<close> is a non-empty list with an object first: the
    \<^verbatim>\<open>parts\<close> of that first artifact (the empty list when absent) are scanned in order.
    The first part of kind \<^verbatim>\<open>data\<close> gives its \<^verbatim>\<open>data\<close> (the empty dictionary when it has none),
    when the parts before it are objects of another kind; when all parts are objects of
    another kind, the result is returned as it is; a part that is not an object, met
    before any part of kind \<^verbatim>\<open>data\<close>, raises \<^verbatim>\<open>AttributeError\<close>. Parts that are an empty
    string or dictionary count as no parts; a non-empty string or dictionary raises
    \<^verbatim>\<open>AttributeError\<close>; \<^verbatim>\<open>None\<close>, a boolean or a number raises \<^verbatim>\<open>TypeError\<close>.
  \<^item> Every other \<^verbatim>\<open>artifacts\<close> raises: \<^verbatim>\<open>AttributeError\<close> for a list whose first element is not
    an object and for a non-empty string, \<^verbatim>\<open>KeyError\<close> for a non-empty dictionary,
    \<^verbatim>\<open>TypeError\<close> for \<^verbatim>\<open>True\<close> and for a number other than 0.
  \<^item> \<^verbatim>\<open>_send_to_agent\<close> posts one request; it raises what the client raises, and otherwise
    gives the above for the decoded body.
\<close>

theorem unwrap_response_shapes:
  "((map_of d ''result'' = Some res \<longrightarrow> unwrap_response ev (JObj d) = extract_result res)
    \<and> (map_of d ''result'' = None \<and> map_of d ''error'' = Some err \<longrightarrow>
         unwrap_response ev (JObj d) = Inl (Exception (''Agent error: '' @ py_str ev err)))
    \<and> (map_of d ''result'' = None \<and> map_of d ''error'' = None \<longrightarrow>
         unwrap_response ev (JObj d) = Inr (JObj d))
    \<and> (\<not> sublist ''result'' s' \<and> \<not> sublist ''error'' s' \<longrightarrow>
         unwrap_response ev (JStr s') = Inr (JStr s'))
    \<and> (sublist ''result'' s' \<or> sublist ''error'' s' \<longrightarrow>
         (\<exists>m. unwrap_response ev (JStr s') = Inl (TypeError m)))
    \<and> (JStr ''result'' \<notin> set xs' \<and> JStr ''error'' \<notin> set xs' \<longrightarrow>
         unwrap_response ev (JList xs') = Inr (JList xs'))
    \<and> (JStr ''result'' \<in> set xs' \<or> JStr ''error'' \<in> set xs' \<longrightarrow>
         (\<exists>m. unwrap_response ev (JList xs') = Inl (TypeError m)))
    \<and> (\<exists>m. unwrap_response ev JNull = Inl (TypeError m))
    \<and> (\<exists>m. unwrap_response ev (JBool b') = Inl (TypeError m))
    \<and> (\<exists>m. unwrap_response ev (JInt i') = Inl (TypeError m)))
   \<and> ((map_of r ''artifacts'' = None \<longrightarrow> extract_result (JObj r) = Inr (JObj r))
    \<and> (map_of r ''artifacts'' = Some arts
         \<and> arts \<in> {JNull, JBool False, JInt 0, JStr [], JList [], JObj []} \<longrightarrow>
         extract_result (JObj r) = Inr (JObj r))
    \<and> (\<not> sublist ''artifacts'' s \<longrightarrow> extract_result (JStr s) = Inr (JStr s))
    \<and> (sublist ''artifacts'' s \<longrightarrow> (\<exists>m. extract_result (JStr s) = Inl (TypeError m)))
    \<and> (JStr ''artifacts'' \<notin> set xs \<longrightarrow> extract_result (JList xs) = Inr (JList xs))
    \<and> (JStr ''artifacts'' \<in> set xs \<longrightarrow> (\<exists>m. extract_result (JList xs) = Inl (TypeError m)))
    \<and> (\<exists>m. extract_result JNull = Inl (TypeError m))
    \<and> (\<exists>m. extract_result (JBool b) = Inl (TypeError m))
    \<and> (\<exists>m. extract_result (JInt i) = Inl (TypeError m)))
   \<and> ((map_of r ''artifacts'' = Some (JList (JObj a # rest)) \<longrightarrow>
       ((case map_of a ''parts'' of Some v \<Rightarrow> v | None \<Rightarrow> JList []) = JList ps \<longrightarrow>
          extract_result (JObj r) =
            (case first_data_part ps of
               Inl e \<Rightarrow> Inl e
             | Inr None \<Rightarrow> Inr (JObj r)
             | Inr (Some v) \<Rightarrow> Inr v))
       \<and> ((case map_of a ''parts'' of Some v \<Rightarrow> v | None \<Rightarrow> JList []) \<in> {JStr [], JObj []} \<longrightarrow>
            extract_result (JObj r) = Inr (JObj r))
       \<and> ((case map_of a ''parts'' of Some v \<Rightarrow> v | None \<Rightarrow> JList [])
              \<in> {JStr (c # cs), JObj (kv # kvs)} \<longrightarrow>
            (\<exists>m. extract_result (JObj r) = Inl (AttributeError m)))
       \<and> ((case map_of a ''parts'' of Some v \<Rightarrow> v | None \<Rightarrow> JList [])
              \<in> {JNull, JBool b, JInt i} \<longrightarrow>
            (\<exists>m. extract_result (JObj r) = Inl (TypeError m))))
    \<and> (map_of r ''artifacts'' = Some (JList (x # rest)) \<and> (\<forall>pd. x \<noteq> JObj pd) \<longrightarrow>
         (\<exists>m. extract_result (JObj r) = Inl (AttributeError m)))
    \<and> (map_of r ''artifacts'' = Some (JStr (c # cs)) \<longrightarrow>
         (\<exists>m. extract_result (JObj r) = Inl (AttributeError m)))
    \<and> (map_of r ''artifacts'' = Some (JObj (kv # kvs)) \<longrightarrow>
         (\<exists>m. extract_result (JObj r) = Inl (KeyError m)))
    \<and> (map_of r ''artifacts'' = Some (JBool True)
         \<or> map_of r ''artifacts'' = Some (JInt i) \<and> i \<noteq> 0 \<longrightarrow>
         (\<exists>m. extract_result (JObj r) = Inl (TypeError m))))
   \<and> ((\<forall>q \<in> set pre. \<exists>pd. q = JObj pd \<and> map_of pd ''kind'' \<noteq> Some (JStr ''data'')) \<longrightarrow>
        first_data_part pre = Inr None
        \<and> (map_of p ''kind'' = Some (JStr ''data'') \<longrightarrow>
             first_data_part (pre @ JObj p # later) =
               Inr (Some (case map_of p ''data'' of Some v \<Rightarrow> v | None \<Rightarrow> JObj [])))
        \<and> ((\<forall>pd. y \<noteq> JObj pd) \<longrightarrow>
             (\<exists>m. first_data_part (pre @ y # later) = Inl (AttributeError m))))
   \<and> ((\<forall>e. post ev (posts_made t) url message = Inl e \<longrightarrow>
          send_to_agent ev t url message = (Inl e, t @ [Post url message]))
      \<and> (\<forall>data. post ev (posts_made t) url message = Inr data \<longrightarrow>
          send_to_agent ev t url message = (unwrap_response ev data, t @ [Post url message])))"
proof -
  have send: "(\<forall>e. post ev (posts_made t) url message = Inl e \<longrightarrow>
          send_to_agent ev t url message = (Inl e, t @ [Post url message]))
      \<and> (\<forall>data. post ev (posts_made t) url message = Inr data \<longrightarrow>
          send_to_agent ev t url message = (unwrap_response ev data, t @ [Post url message]))"
    by (simp add: send_to_agent_def)
  have parts: "(\<forall>q \<in> set pre. \<exists>pd. q = JObj pd \<and> map_of pd ''kind'' \<noteq> Some (JStr ''data'')) \<longrightarrow>
        first_data_part pre = Inr None
        \<and> (map_of p ''kind'' = Some (JStr ''data'') \<longrightarrow>
             first_data_part (pre @ JObj p # later) =
               Inr (Some (case map_of p ''data'' of Some v \<Rightarrow> v | None \<Rightarrow> JObj [])))
        \<and> ((\<forall>pd. y \<noteq> JObj pd) \<longrightarrow>
             (\<exists>m. first_data_part (pre @ y # later) = Inl (AttributeError m)))"
    using first_data_part_cases [of pre p later y] by blast
  show ?thesis
    using unwrap_response_object [where d = d and res = res and ev = ev and err = err]
      unwrap_response_not_object [where s = s' and xs = xs' and b = b' and i = i' and ev = ev]
      extract_result_no_artifact [where r = r and arts = arts and s = s and xs = xs
        and b = b and i = i]
      extract_result_artifacts [where r = r and a = a and rest = rest and ps = ps and c = c
        and cs = cs and kv = kv and kvs = kvs and b = b and i = i and x = x]
      send parts
    by blast
qed

theorem unwrap_response_shapes_witness:
  "unwrap_response example_env (JObj [(''error'', JStr ''boom'')]) =
     Inl (Exception ''Agent error: boom'')
   \<and> unwrap_response example_env (JObj [(''status'', JStr ''ok'')]) =
       Inr (JObj [(''status'', JStr ''ok'')])
   \<and> unwrap_response example_env (JObj [(''result'', JStr ''ok'')]) = Inr (JStr ''ok'')
   \<and> unwrap_response example_env (JObj [(''result'', JObj [(''status'', JStr ''ok'')])]) =
       Inr (JObj [(''status'', JStr ''ok'')])
   \<and> unwrap_response example_env
       (JObj [(''result'', JObj [(''artifacts'', JList
          [JObj [(''parts'', JList
             [JObj [(''kind'', JStr ''text''), (''text'', JStr ''hello'')],
              JObj [(''kind'', JStr ''data''), (''data'', JObj [(''score'', JInt 7)])],
              JObj [(''kind'', JStr ''data''), (''data'', JObj [(''score'', JInt 8)])]])]])])]) =
       Inr (JObj [(''score'', JInt 7)])
   \<and> unwrap_response example_env
       (JObj [(''result'', JObj [(''artifacts'', JList [JObj [(''name'', JStr ''empty'')]])])]) =
       Inr (JObj [(''artifacts'', JList [JObj [(''name'', JStr ''empty'')]])])
   \<and> (\<exists>m. unwrap_response example_env
              (JObj [(''result'', JNull), (''error'', JStr ''boom'')]) = Inl (TypeError m))
   \<and> send_to_agent example_env [] ''http://localhost:8001'' JNull =
       (Inr (JObj [(''status'', JStr ''ok'')]), [Post ''http://localhost:8001'' JNull])"
proof -
  let ?ok = "[(''status'', JStr ''ok'')]"
  let ?text = "[(''kind'', JStr ''text''), (''text'', JStr ''hello'')]"
  let ?seven = "[(''kind'', JStr ''data''), (''data'', JObj [(''score'', JInt 7)])]"
  let ?eight = "[(''kind'', JStr ''data''), (''data'', JObj [(''score'', JInt 8)])]"
  let ?artifact = "[(''parts'', JList [JObj ?text, JObj ?seven, JObj ?eight])]"
  let ?result = "[(''artifacts'', JList [JObj ?artifact])]"
  let ?empty = "[(''name'', JStr ''empty'')]"
  let ?bare = "[(''artifacts'', JList [JObj ?empty])]"
  note shapes = unwrap_response_shapes
    [where ev = example_env and t = "[]" and url = "''http://localhost:8001''"
       and message = JNull and s' = "[]" and xs' = "[]" and b' = False and i' = 0
       and arts = JNull and xs = "[]" and b = False and i = 0 and rest = "[]"
       and c = "CHR ''a''" and cs = "[]" and kv = "([], JNull)" and kvs = "[]"
       and x = JNull and y = JNull]
  have error_only: "unwrap_response example_env (JObj [(''error'', JStr ''boom'')]) =
     Inl (Exception ''Agent error: boom'')"
    using shapes [where d = "[(''error'', JStr ''boom'')]" and err = "JStr ''boom''"
        and res = JNull and r = "[]" and s = "[]" and a = "[]" and ps = "[]" and pre = "[]"
        and p = "[]" and later = "[]"]
    by (simp add: example_env_def)
  have neither: "unwrap_response example_env (JObj ?ok) = Inr (JObj ?ok)"
    using shapes [where d = ?ok and err = JNull
        and res = JNull and r = "[]" and s = "[]" and a = "[]" and ps = "[]" and pre = "[]"
        and p = "[]" and later = "[]"]
    by simp
  have string_result:
    "unwrap_response example_env (JObj [(''result'', JStr ''ok'')]) = Inr (JStr ''ok'')"
    using shapes [where d = "[(''result'', JStr ''ok'')]" and err = JNull
        and res = "JStr ''ok''" and r = "[]" and s = "''ok''" and a = "[]" and ps = "[]"
        and pre = "[]" and p = "[]" and later = "[]"]
    by (simp add: sublist_Cons_right)
  have plain_result:
    "unwrap_response example_env (JObj [(''result'', JObj ?ok)]) = Inr (JObj ?ok)"
    using shapes [where d = "[(''result'', JObj ?ok)]" and err = JNull
        and res = "JObj ?ok" and r = ?ok and s = "[]" and a = "[]" and ps = "[]"
        and pre = "[]" and p = "[]" and later = "[]"]
    by simp
  have data_part: "unwrap_response example_env (JObj [(''result'', JObj ?result)]) =
       Inr (JObj [(''score'', JInt 7)])"
    using shapes [where d = "[(''result'', JObj ?result)]" and err = JNull
        and res = "JObj ?result" and r = ?result and s = "[]" and a = ?artifact
        and ps = "[JObj ?text, JObj ?seven, JObj ?eight]"
        and pre = "[JObj ?text]" and p = ?seven and later = "[JObj ?eight]"]
    by simp
  have no_parts: "unwrap_response example_env (JObj [(''result'', JObj ?bare)]) =
       Inr (JObj ?bare)"
    using shapes [where d = "[(''result'', JObj ?bare)]" and err = JNull
        and res = "JObj ?bare" and r = ?bare and s = "[]" and a = ?empty and ps = "[]"
        and pre = "[]" and p = "[]" and later = "[]"]
    by simp
  have null_result: "\<exists>m. unwrap_response example_env
              (JObj [(''result'', JNull), (''error'', JStr ''boom'')]) = Inl (TypeError m)"
    using shapes [where d = "[(''result'', JNull), (''error'', JStr ''boom'')]"
        and err = "JStr ''boom''" and res = JNull and r = "[]" and s = "[]" and a = "[]"
        and ps = "[]" and pre = "[]" and p = "[]" and later = "[]"]
    by simp
  have sent: "send_to_agent example_env [] ''http://localhost:8001'' JNull =
       (Inr (JObj ?ok), [Post ''http://localhost:8001'' JNull])"
    using shapes [where d = "[(''result'', JObj ?ok)]" and err = JNull
        and res = "JObj ?ok" and r = ?ok and s = "[]" and a = "[]" and ps = "[]"
        and pre = "[]" and p = "[]" and later = "[]"]
    by (simp add: example_env_def posts_made_def)
  from error_only neither string_result plain_result data_part no_parts null_result sent
  show ?thesis by blast
qed

text \<open>
  Claim C8 as stated fails. A response that carries an error indicator next to a result
  does not yield an error: \<^verbatim>\<open>_send_to_agent\<close> returns the result. And a response of another
  shape, a result without artifacts, is not returned verbatim: its result member is.
\<close>

theorem send_to_agent_error_with_result_counterexample:
  "send_to_agent
     (example_env\<lparr>post := \<lambda>n url m. Inr (JObj [(''result'', JObj [(''status'', JStr ''ok'')]),
                                               (''error'', JObj [(''code'', JInt 1)])])\<rparr>)
     [] ''http://localhost:8001'' JNull =
     (Inr (JObj [(''status'', JStr ''ok'')]), [Post ''http://localhost:8001'' JNull])
   \<and> fst (send_to_agent example_env [] ''http://localhost:8001'' JNull) =
       Inr (JObj [(''status'', JStr ''ok'')])
   \<and> fst (send_to_agent example_env [] ''http://localhost:8001'' JNull) \<noteq>
       Inr (JObj [(''result'', JObj [(''status'', JStr ''ok'')])])"
  by (simp add: pipeline_defs)

end
